theory Spec2Isabelle
  imports Main "HOL-Library.Char_ord" "HOL-Library.List_Lexorder"
begin

section \<open>Python strings\<close>

text \<open>
  Python strings are modelled as \<open>string\<close> (lists of characters).  The functions of this
  section are the string methods the package calls, each written out on lists:
  \<open>s.startswith(p)\<close>, \<open>s.endswith(p)\<close>, \<open>sub in s\<close>, \<open>s.split(sep, 1)\<close>,
  \<open>s.rsplit(sep, 1)\<close>, \<open>s.split(c)\<close> for a one-character separator, \<open>c.join(parts)\<close>,
  \<open>s.replace(old, new)\<close>, \<open>s.count(c)\<close>, \<open>s.strip()\<close> and \<open>s.split()\<close> on ASCII white
  space, \<open>os.path.basename\<close> and \<open>os.path.join\<close> of two parts.  Separators are never empty
  in the package.  White space is the six characters that a byte string of Python 2 strips;
  on a text string Python 3 strips the separators \<open>0x1C\<close> to \<open>0x1F\<close>, \<open>0x85\<close> and \<open>0xA0\<close> as well.
\<close>

definition startswith :: "string \<Rightarrow> string \<Rightarrow> bool" where
  "startswith s p = (take (length p) s = p)"

definition endswith :: "string \<Rightarrow> string \<Rightarrow> bool" where
  "endswith s p = (length p \<le> length s \<and> drop (length s - length p) s = p)"

fun contains :: "string \<Rightarrow> string \<Rightarrow> bool" where
  "contains sub [] = (sub = [])"
| "contains sub (c # cs) = (startswith (c # cs) sub \<or> contains sub cs)"

fun split1 :: "string \<Rightarrow> string \<Rightarrow> string list" where
  "split1 sep [] = [[]]"
| "split1 sep (c # cs) =
     (if startswith (c # cs) sep then [[], drop (length sep) (c # cs)]
      else (case split1 sep cs of [] \<Rightarrow> [[c]] | a # r \<Rightarrow> (c # a) # r))"

definition rsplit1 :: "string \<Rightarrow> string \<Rightarrow> string list" where
  "rsplit1 sep s = rev (map rev (split1 (rev sep) (rev s)))"

fun split_chr :: "char \<Rightarrow> string \<Rightarrow> string list" where
  "split_chr c [] = [[]]"
| "split_chr c (x # xs) =
     (if x = c then [] # split_chr c xs
      else (case split_chr c xs of [] \<Rightarrow> [[x]] | a # r \<Rightarrow> (x # a) # r))"

fun join :: "string \<Rightarrow> string list \<Rightarrow> string" where
  "join sep [] = []"
| "join sep [x] = x"
| "join sep (x # y # ys) = x @ sep @ join sep (y # ys)"

definition count_chr :: "char \<Rightarrow> string \<Rightarrow> nat" where
  "count_chr c s = length (filter (\<lambda>x. x = c) s)"

definition is_space :: "char \<Rightarrow> bool" where
  "is_space c = (c \<in> set [CHR '' '', CHR 0x09, CHR 0x0A, CHR 0x0B, CHR 0x0C, CHR 0x0D])"

definition strip :: "string \<Rightarrow> string" where
  "strip s = rev (dropWhile is_space (rev (dropWhile is_space s)))"

definition basename :: "string \<Rightarrow> string" where
  "basename p = last (split_chr CHR ''/'' p)"

fun split_ws_from :: "string \<Rightarrow> string \<Rightarrow> string list" where
  "split_ws_from cur [] = (if cur = [] then [] else [rev cur])"
| "split_ws_from cur (c # cs) =
     (if is_space c then (if cur = [] then split_ws_from [] cs else rev cur # split_ws_from [] cs)
      else split_ws_from (c # cur) cs)"

definition split_ws :: "string \<Rightarrow> string list" where
  "split_ws s = split_ws_from [] s"

function replace :: "string \<Rightarrow> string \<Rightarrow> string \<Rightarrow> string" where
  "replace old new [] = []"
| "replace old new (c # cs) =
     (if old \<noteq> [] \<and> startswith (c # cs) old
      then new @ replace old new (drop (length old) (c # cs))
      else c # replace old new cs)"
  by pat_completeness auto
termination
  by (relation "measure (\<lambda>(old, new, s). length s)") auto

definition osp_join :: "string \<Rightarrow> string \<Rightarrow> string" where
  "osp_join a b =
     (if startswith b ''/'' then b
      else if a = [] \<or> endswith a ''/'' then a @ b
      else a @ ''/'' @ b)"

section \<open>Exceptions\<close>

text \<open>
  Every \<open>raise\<close> of the package is a value: the Python exception class, tagged with the
  place that raises it.  \<open>Conflicting_mgms\<close> is the spec's ConflictingServer,
  \<open>No_default_mgm\<close> its NoDefaultServer, \<open>No_server_lfn\<close> and \<open>Lfn_no_slash\<close> its
  MalformedAddress, \<open>Max_recursion_depth\<close> its RecursionBudgetExceeded and
  \<open>CalledProcessError\<close> its CommandFailed.  \<open>NameError\<close> carries the name that is not defined
  where it is read, \<open>OSError\<close> the errno.  \<open>ReError\<close> is \<open>re.error\<close>; \<open>Regex_not_modelled\<close> is not
  an exception of Python: it is the answer of the model of \<open>re.compile\<close> on a pattern with
  a metacharacter other than \<open>.\<close> and \<open>*\<close>.
\<close>

datatype site =
    No_protocol | No_server_lfn | Unpack | Conflicting_mgms | Lfn_no_slash
  | Join_lfn_no_slash | No_default_mgm
  | Int_literal | Strptime | Not_iterable
  | No_size | No_modtime | No_isdir | Statline_components
  | Unknown_exit_code | Not_a_valid_directory | Path_does_not_exist | Not_a_directory
  | Max_recursion_depth | Not_a_string | Pool_processes

datatype exn =
    ValueError site
  | RuntimeError site
  | TypeError site
  | NameError string
  | IndexError
  | AttributeError
  | RecursionError
  | ZeroDivisionError
  | OSError nat
  | CalledProcessError "string list" int
  | ReError
  | Regex_not_modelled

section \<open>Path management\<close>

definition has_protocol :: "string \<Rightarrow> bool" where
  "has_protocol filename = contains ''://'' filename"

definition split_protocol_pfn :: "string \<Rightarrow> exn + (string \<times> string \<times> string)" where
  "split_protocol_pfn filename =
     (if \<not> has_protocol filename then Inl (ValueError No_protocol)
      else (case split1 ''://'' filename of
          [protocol, rest] \<Rightarrow>
            if \<not> contains ''//'' rest then Inl (ValueError No_server_lfn)
            else (case split1 ''//'' rest of
                [server, lfn] \<Rightarrow> Inr (protocol, server, ''/'' @ lfn)
              | _ \<Rightarrow> Inl (ValueError Unpack))
        | _ \<Rightarrow> Inl (ValueError Unpack)))"

definition split_mgm_pfn :: "string \<Rightarrow> exn + (string \<times> string)" where
  "split_mgm_pfn filename =
     (case split_protocol_pfn filename of
        Inl e \<Rightarrow> Inl e
      | Inr (protocol, server, lfn) \<Rightarrow> Inr (protocol @ ''://'' @ server, lfn))"

definition get_default_mgm :: "string option \<Rightarrow> exn + string" where
  "get_default_mgm DEFAULT_MGM =
     (case DEFAULT_MGM of None \<Rightarrow> Inl (RuntimeError No_default_mgm) | Some m \<Rightarrow> Inr m)"

definition split_mgm :: "string option \<Rightarrow> string \<Rightarrow> string option \<Rightarrow> exn + (string \<times> string)" where
  "split_mgm DEFAULT_MGM path mgm =
     (case
        (if has_protocol path then
           (case split_mgm_pfn path of
              Inl e \<Rightarrow> Inl e
            | Inr (mgm_from_path, lfn) \<Rightarrow>
                if mgm \<noteq> None \<and> Some mgm_from_path \<noteq> mgm
                then Inl (ValueError Conflicting_mgms)
                else Inr (mgm_from_path, lfn))
         else (case mgm of
              None \<Rightarrow>
                (case get_default_mgm DEFAULT_MGM of
                   Inl e \<Rightarrow> Inl e
                 | Inr m \<Rightarrow> Inr (m, path))
            | Some m \<Rightarrow> Inr (m, path)))
      of
        Inl e \<Rightarrow> Inl e
      | Inr (mgm', lfn) \<Rightarrow>
          if \<not> startswith lfn ''/'' then Inl (ValueError Lfn_no_slash) else Inr (mgm', lfn))"

definition join_mgm_lfn :: "string \<Rightarrow> string \<Rightarrow> exn + string" where
  "join_mgm_lfn mgm lfn =
     (if \<not> startswith lfn ''/'' then Inl (ValueError Join_lfn_no_slash)
      else Inr ((if \<not> endswith mgm ''/'' then mgm @ ''/'' else mgm) @ lfn))"

definition format :: "string option \<Rightarrow> string \<Rightarrow> string option \<Rightarrow> exn + string" where
  "format DEFAULT_MGM path mgm =
     (case split_mgm DEFAULT_MGM path mgm of
        Inl e \<Rightarrow> Inl e
      | Inr (mgm', lfn) \<Rightarrow> join_mgm_lfn mgm' lfn)"


definition get_protocol :: "string option \<Rightarrow> string \<Rightarrow> string option \<Rightarrow> exn + string" where
  "get_protocol DEFAULT_MGM path mgm =
     (case format DEFAULT_MGM path mgm of
        Inl e \<Rightarrow> Inl e
      | Inr path' \<Rightarrow> (case split1 ''://'' path' of [] \<Rightarrow> Inl IndexError | p # _ \<Rightarrow> Inr p))"

definition use_xrootd :: "string \<Rightarrow> bool" where
  "use_xrootd protocol = (protocol = ''root'')"

definition use_xrootd_path :: "string option \<Rightarrow> string \<Rightarrow> exn + bool" where
  "use_xrootd_path DEFAULT_MGM path =
     (case get_protocol DEFAULT_MGM path None of
        Inl e \<Rightarrow> Inl e
      | Inr protocol \<Rightarrow> Inr (use_xrootd protocol))"

subsection \<open>Well-formed servers and the round trip through the joined form\<close>

text \<open>
  Two notions the properties below are stated with (they are not functions of the package).
  A well-formed server string has the shape \<open>protocol://host\<close>, with a non-empty host that
  contains no \<open>//\<close> and does not end in \<open>/\<close>.  \<open>parse_join_resolve\<close> is the composition
  \<open>split_mgm(format(p, mgm))\<close>, an exception of \<open>format\<close> being passed on.
\<close>

definition wf_mgm :: "string \<Rightarrow> bool" where
  "wf_mgm mgm =
     (case split1 ''://'' mgm of
        [protocol, server] \<Rightarrow>
          server \<noteq> [] \<and> \<not> contains ''//'' server \<and> \<not> endswith server ''/''
      | _ \<Rightarrow> False)"

definition parse_join_resolve :: "string option \<Rightarrow> string \<Rightarrow> string \<Rightarrow> exn + (string \<times> string)" where
  "parse_join_resolve DEFAULT_MGM p mgm =
     (case format DEFAULT_MGM p (Some mgm) of
        Inl e \<Rightarrow> Inl e
      | Inr url \<Rightarrow> split_mgm DEFAULT_MGM url None)"


section \<open>The outside world and the state of the module\<close>

text \<open>
  What the package does not decide is a parameter \<open>E\<close>: the outcome of the \<open>k\<close>-th process
  the module starts (return code and captured output lines, or the errno of an \<open>OSError\<close> of
  \<open>Popen\<close>), the library functions \<open>int\<close> and \<open>datetime.strptime\<close> (\<open>None\<close> where they raise
  \<open>ValueError\<close>), and the values drawn from \<open>uuid.uuid4\<close>.

  The module's global variables and the effects it has are the fields of \<open>world\<close>: the
  flags \<open>DRYMODE\<close> and \<open>USE_CACHE\<close>, \<open>DEFAULT_MGM\<close>, \<open>MAX_RECURSION_DEPTH\<close>, the commands
  given to \<open>Popen\<close> in order, the seconds spent in \<open>time.sleep\<close>, the directories made and not
  yet removed, and the number of uuids drawn.

  Modelled from the spec: the class \<open>FileCache\<close> of the module \<open>seutils.cache\<close>, which is not
  among the sources.  The spec describes a durable key-to-value mapping per namespace; the
  field \<open>CACHES\<close> maps a namespace and a key to the stored value, \<open>get(key, None)\<close> reads it
  and item assignment followed by \<open>sync\<close> stores it.
\<close>

datatype proc = Exited int "string list" | Popen_failed nat

record env =
  exec :: "string list \<Rightarrow> nat \<Rightarrow> proc"
  py_int :: "string \<Rightarrow> int option"
  strptime :: "string \<Rightarrow> string \<Rightarrow> nat option"
  uuid4 :: "nat \<Rightarrow> string"

record Inode =
  ino_path :: string
  ino_modtime :: nat
  ino_isdir :: bool
  ino_size :: int

definition ino_isfile :: "Inode \<Rightarrow> bool" where
  "ino_isfile i = (\<not> ino_isdir i)"

definition ino_basename :: "Inode \<Rightarrow> string" where
  "ino_basename i = basename (ino_path i)"

datatype pyval =
    PyNone | PyBool bool | PyInt int | PyStr string | PyInode Inode | PyList "pyval list"

fun truthy :: "pyval \<Rightarrow> bool" where
  "truthy PyNone = False"
| "truthy (PyBool b) = b"
| "truthy (PyInt n) = (n \<noteq> 0)"
| "truthy (PyStr s) = (s \<noteq> [])"
| "truthy (PyInode i) = True"
| "truthy (PyList xs) = (xs \<noteq> [])"

record world =
  DRYMODE :: bool
  DEFAULT_MGM :: "string option"
  USE_CACHE :: bool
  CACHES :: "string \<Rightarrow> string \<Rightarrow> pyval option"
  MAX_RECURSION_DEPTH :: nat
  commands :: "string list list"
  slept :: nat
  directories_made :: "string list"
  uuids_drawn :: nat

section \<open>Running commands\<close>

text \<open>
  \<open>run_command\<close> returns the output lines, the empty string in dry mode, or (as written) the
  return code; these are the three forms of \<open>cmd_result\<close>.  Its \<open>while True\<close> loop is
  \<open>run_command_loop\<close>, which carries \<open>i_attempt\<close>.  In the branch for
  \<open>non_zero_exitcode_ok\<close> the source evaluates the name \<open>return_code\<close>, which is bound nowhere
  (the local variable is \<open>returncode\<close>), as an argument of \<open>logger.info\<close> before the
  \<open>return\<close>; the model raises the \<open>NameError\<close> there.
\<close>

definition N_SECONDS_SLEEP :: nat where
  "N_SECONDS_SLEEP = 10"

datatype cmd_result = Output "string list" | Empty_str | Returncode int

function run_command_loop ::
  "env \<Rightarrow> string list \<Rightarrow> bool \<Rightarrow> bool \<Rightarrow> int \<Rightarrow> nat \<Rightarrow> world \<Rightarrow> (exn + cmd_result) \<times> world" where
  "run_command_loop E cmd dry non_zero_exitcode_ok n_retries i_attempt w =
     (if dry then (Inr Empty_str, w)
      else (case exec E cmd (length (commands w)) of
          Popen_failed errno \<Rightarrow> (Inl (OSError errno), w\<lparr>commands := commands w @ [cmd]\<rparr>)
        | Exited returncode output \<Rightarrow>
            if returncode = 0 then (Inr (Output output), w\<lparr>commands := commands w @ [cmd]\<rparr>)
            else if non_zero_exitcode_ok
            then (Inl (NameError ''return_code''), w\<lparr>commands := commands w @ [cmd]\<rparr>)
            else if int i_attempt < n_retries
            then run_command_loop E cmd dry non_zero_exitcode_ok n_retries (i_attempt + 1)
                   (w\<lparr>commands := commands w @ [cmd], slept := slept w + N_SECONDS_SLEEP\<rparr>)
            else (Inl (CalledProcessError cmd returncode), w\<lparr>commands := commands w @ [cmd]\<rparr>)))"
  by pat_completeness auto
termination
  by (relation "measure (\<lambda>(E, cmd, dry, ok, n_retries, i_attempt, w). nat (n_retries - int i_attempt))")
    auto

declare run_command_loop.simps [simp del]

definition run_command ::
  "env \<Rightarrow> string list \<Rightarrow> bool option \<Rightarrow> bool \<Rightarrow> int \<Rightarrow> world \<Rightarrow> (exn + cmd_result) \<times> world" where
  "run_command E cmd dry non_zero_exitcode_ok n_retries w =
     run_command_loop E cmd (case dry of None \<Rightarrow> DRYMODE w | Some d \<Rightarrow> d)
       non_zero_exitcode_ok n_retries 0 w"

definition get_exitcode :: "env \<Rightarrow> string list \<Rightarrow> world \<Rightarrow> (exn + int) \<times> world" where
  "get_exitcode E cmd w =
     (if DRYMODE w then (Inr 0, w)
      else (case exec E cmd (length (commands w)) of
          Popen_failed errno \<Rightarrow> (Inl (OSError errno), w\<lparr>commands := commands w @ [cmd]\<rparr>)
        | Exited returncode output \<Rightarrow> (Inr returncode, w\<lparr>commands := commands w @ [cmd]\<rparr>)))"

text \<open>Iterating over what \<open>run_command\<close> returned: over an \<open>int\<close> it is a \<open>TypeError\<close>.\<close>

definition lines_of :: "cmd_result \<Rightarrow> exn + string list" where
  "lines_of r =
     (case r of Output ls \<Rightarrow> Inr ls | Empty_str \<Rightarrow> Inr [] | Returncode n \<Rightarrow> Inl (TypeError Not_iterable))"

section \<open>The cache\<close>

definition read_cache :: "string \<Rightarrow> string \<Rightarrow> world \<Rightarrow> pyval" where
  "read_cache subcache_name key w =
     (if \<not> USE_CACHE w then PyNone
      else (case CACHES w subcache_name key of None \<Rightarrow> PyNone | Some val \<Rightarrow> val))"

definition write_cache :: "string \<Rightarrow> string \<Rightarrow> pyval \<Rightarrow> world \<Rightarrow> world" where
  "write_cache subcache_name key val w =
     (if USE_CACHE w
      then w\<lparr>CACHES := (CACHES w)(subcache_name := (CACHES w subcache_name)(key \<mapsto> val))\<rparr>
      else w)"

section \<open>Interactions with the storage element\<close>

subsection \<open>stat\<close>

text \<open>
  The loops of \<open>_stat_xrootd\<close> and \<open>_stat_gfal\<close> over the output lines carry the three
  variables \<open>size\<close> (here \<open>size'\<close>), \<open>modtime\<close> and \<open>isdir\<close>, \<open>None\<close> until a line sets them.  The \<open>Inode\<close>
  that \<open>_stat_xrootd\<close> builds has the logical path (the source rebinds \<open>path\<close>), the one of
  \<open>_stat_gfal\<close> the path as passed.  In \<open>_stat_gfal\<close> the message of the \<open>RuntimeError\<close> reads
  the name \<open>cmd\<close>, which that function never binds.  The derived field \<open>size_human\<close> of
  \<open>Inode\<close> (a formatted float) is left out.
\<close>

fun parse_stat_xrootd ::
  "env \<Rightarrow> string list \<Rightarrow> int option \<times> nat option \<times> bool option
     \<Rightarrow> exn + (int option \<times> nat option \<times> bool option)" where
  "parse_stat_xrootd E [] acc = Inr acc"
| "parse_stat_xrootd E (l0 # ls) (size', modtime, isdir) =
     (let l = strip l0 in
      if startswith l ''Size:'' then
        (case split_ws l of
           _ # x # _ \<Rightarrow>
             (case py_int E x of
                None \<Rightarrow> Inl (ValueError Int_literal)
              | Some n \<Rightarrow> parse_stat_xrootd E ls (Some n, modtime, isdir))
         | _ \<Rightarrow> Inl IndexError)
      else if startswith l ''MTime:'' then
        (case strptime E (strip (replace ''MTime:'' [] l)) ''%Y-%m-%d %H:%M:%S'' of
           None \<Rightarrow> Inl (ValueError Strptime)
         | Some t \<Rightarrow> parse_stat_xrootd E ls (size', Some t, isdir))
      else if startswith l ''Flags:'' then
        parse_stat_xrootd E ls (size', modtime, Some (contains ''IsDir'' l))
      else parse_stat_xrootd E ls (size', modtime, isdir))"

fun parse_stat_gfal ::
  "env \<Rightarrow> string list \<Rightarrow> int option \<times> nat option \<times> bool option
     \<Rightarrow> exn + (int option \<times> nat option \<times> bool option)" where
  "parse_stat_gfal E [] acc = Inr acc"
| "parse_stat_gfal E (l0 # ls) (size', modtime, isdir) =
     (let line = strip l0 in
      if length line = 0 then parse_stat_gfal E ls (size', modtime, isdir)
      else if startswith line ''Size:'' then
        (case split_ws (strip (replace ''Size:'' [] line)) of
           x # _ \<Rightarrow>
             (case py_int E x of
                None \<Rightarrow> Inl (ValueError Int_literal)
              | Some n \<Rightarrow> parse_stat_gfal E ls (Some n, modtime, Some (contains ''directory'' line)))
         | [] \<Rightarrow> Inl IndexError)
      else if startswith line ''Modify:'' then
        (let timestamp = strip (replace ''Modify:'' [] line);
             timestamp' = (if contains ''.'' timestamp
                           then (case split_chr CHR ''.'' timestamp of [] \<Rightarrow> [] | t # _ \<Rightarrow> t)
                           else timestamp)
         in case strptime E timestamp' ''%Y-%m-%d %H:%M:%S'' of
              None \<Rightarrow> Inl (ValueError Strptime)
            | Some t \<Rightarrow> parse_stat_gfal E ls (size', Some t, isdir))
      else parse_stat_gfal E ls (size', modtime, isdir))"

definition make_inode ::
  "string \<Rightarrow> int option \<times> nat option \<times> bool option \<Rightarrow> exn + pyval" where
  "make_inode path acc =
     (case acc of (size', modtime, isdir) \<Rightarrow>
        (case size' of None \<Rightarrow> Inl (RuntimeError No_size) | Some sz \<Rightarrow>
        (case modtime of None \<Rightarrow> Inl (RuntimeError No_modtime) | Some mt \<Rightarrow>
        (case isdir of None \<Rightarrow> Inl (RuntimeError No_isdir) | Some d \<Rightarrow>
           Inr (PyInode \<lparr>ino_path = path, ino_modtime = mt, ino_isdir = d, ino_size = sz\<rparr>)))))"

definition stat_gfal :: "env \<Rightarrow> string \<Rightarrow> bool \<Rightarrow> world \<Rightarrow> (exn + pyval) \<times> world" where
  "stat_gfal E path not_exist_ok w =
     (case run_command E [''gfal-stat'', path] None not_exist_ok 0 w of
        (Inl e, w') \<Rightarrow> (Inl e, w')
      | (Inr (Returncode output), w') \<Rightarrow>
          if not_exist_ok \<and> output = 2 then (Inr PyNone, w')
          else (Inl (NameError ''cmd''), w')
      | (Inr output, w') \<Rightarrow>
          (case lines_of output of
             Inl e \<Rightarrow> (Inl e, w')
           | Inr ls \<Rightarrow>
               (case parse_stat_gfal E ls (None, None, None) of
                  Inl e \<Rightarrow> (Inl e, w')
                | Inr acc \<Rightarrow> (make_inode path acc, w'))))"

definition stat_xrootd :: "env \<Rightarrow> string \<Rightarrow> bool \<Rightarrow> world \<Rightarrow> (exn + pyval) \<times> world" where
  "stat_xrootd E path not_exist_ok w =
     (case split_mgm (DEFAULT_MGM w) path None of
        Inl e \<Rightarrow> (Inl e, w)
      | Inr (mgm, lfn) \<Rightarrow>
          (case run_command E [''xrdfs'', mgm, ''stat'', lfn] None not_exist_ok 0 w of
             (Inl e, w') \<Rightarrow> (Inl e, w')
           | (Inr (Returncode output), w') \<Rightarrow>
               if not_exist_ok \<and> output = 54 then (Inr PyNone, w')
               else (Inl (RuntimeError Unknown_exit_code), w')
           | (Inr output, w') \<Rightarrow>
               (case lines_of output of
                  Inl e \<Rightarrow> (Inl e, w')
                | Inr ls \<Rightarrow>
                    (case parse_stat_xrootd E ls (None, None, None) of
                       Inl e \<Rightarrow> (Inl e, w')
                     | Inr acc \<Rightarrow> (make_inode lfn acc, w')))))"

definition stat :: "env \<Rightarrow> string \<Rightarrow> bool \<Rightarrow> world \<Rightarrow> (exn + pyval) \<times> world" where
  "stat E path not_exist_ok w =
     (let val = read_cache ''seutils-cache.stat'' (strip path) w in
      if val = PyNone then
        (case use_xrootd_path (DEFAULT_MGM w) path of
           Inl e \<Rightarrow> (Inl e, w)
         | Inr xrootd \<Rightarrow>
             (case (if xrootd then stat_xrootd E path not_exist_ok w
                    else stat_gfal E path not_exist_ok w) of
                (Inl e, w') \<Rightarrow> (Inl e, w')
              | (Inr val', w') \<Rightarrow>
                  (Inr val', write_cache ''seutils-cache.stat'' (strip path) val' w')))
      else (Inr val, w))"

subsection \<open>exists, isdir, isfile, is_file_or_dir\<close>

text \<open>
  Each query reads its cache, asks the backend of the path's protocol when the cache gave
  \<open>None\<close>, writes the answer and returns it.  The xrootd backends read the exit code of
  \<open>xrdfs ... stat\<close>; the gfal backends go through \<open>_stat_gfal\<close> with \<open>not_exist_ok=True\<close>.
\<close>

definition exists_gfal :: "env \<Rightarrow> string \<Rightarrow> world \<Rightarrow> (exn + pyval) \<times> world" where
  "exists_gfal E path w =
     (case get_exitcode E [''gfal-stat'', path] w of
        (Inl e, w') \<Rightarrow> (Inl e, w')
      | (Inr status, w') \<Rightarrow> (Inr (PyBool (status = 0)), w'))"

definition exists_xrootd :: "env \<Rightarrow> string \<Rightarrow> world \<Rightarrow> (exn + pyval) \<times> world" where
  "exists_xrootd E path w =
     (case split_mgm (DEFAULT_MGM w) path None of
        Inl e \<Rightarrow> (Inl e, w)
      | Inr (mgm, lfn) \<Rightarrow>
          (case get_exitcode E [''xrdfs'', mgm, ''stat'', lfn] w of
             (Inl e, w') \<Rightarrow> (Inl e, w')
           | (Inr status, w') \<Rightarrow> (Inr (PyBool (status = 0)), w')))"

definition exists :: "env \<Rightarrow> string \<Rightarrow> world \<Rightarrow> (exn + pyval) \<times> world" where
  "exists E path w =
     (let val = read_cache ''seutils-cache.exists'' (strip path) w in
      if val = PyNone then
        (case use_xrootd_path (DEFAULT_MGM w) path of
           Inl e \<Rightarrow> (Inl e, w)
         | Inr xrootd \<Rightarrow>
             (case (if xrootd then exists_xrootd E path w else exists_gfal E path w) of
                (Inl e, w') \<Rightarrow> (Inl e, w')
              | (Inr val', w') \<Rightarrow>
                  (Inr val', write_cache ''seutils-cache.exists'' (strip path) val' w')))
      else (Inr val, w))"

definition isdir_gfal :: "env \<Rightarrow> string \<Rightarrow> world \<Rightarrow> (exn + pyval) \<times> world" where
  "isdir_gfal E directory w =
     (case stat_gfal E directory True w of
        (Inl e, w') \<Rightarrow> (Inl e, w')
      | (Inr statinfo, w') \<Rightarrow>
          (case statinfo of
             PyNone \<Rightarrow> (Inr (PyBool False), w')
           | PyInode i \<Rightarrow> (Inr (PyBool (ino_isdir i)), w')
           | _ \<Rightarrow> (Inl AttributeError, w')))"

definition isdir_xrootd :: "env \<Rightarrow> string \<Rightarrow> world \<Rightarrow> (exn + pyval) \<times> world" where
  "isdir_xrootd E directory w =
     (case split_mgm (DEFAULT_MGM w) directory None of
        Inl e \<Rightarrow> (Inl e, w)
      | Inr (mgm, lfn) \<Rightarrow>
          (case get_exitcode E [''xrdfs'', mgm, ''stat'', ''-q'', ''IsDir'', lfn] w of
             (Inl e, w') \<Rightarrow> (Inl e, w')
           | (Inr status, w') \<Rightarrow> (Inr (PyBool (status = 0)), w')))"

definition isdir :: "env \<Rightarrow> string \<Rightarrow> world \<Rightarrow> (exn + pyval) \<times> world" where
  "isdir E directory w =
     (let val = read_cache ''seutils-cache.isdir'' (strip directory) w in
      if val = PyNone then
        (case use_xrootd_path (DEFAULT_MGM w) directory of
           Inl e \<Rightarrow> (Inl e, w)
         | Inr xrootd \<Rightarrow>
             (case (if xrootd then isdir_xrootd E directory w else isdir_gfal E directory w) of
                (Inl e, w') \<Rightarrow> (Inl e, w')
              | (Inr val', w') \<Rightarrow>
                  (Inr val', write_cache ''seutils-cache.isdir'' (strip directory) val' w')))
      else (Inr val, w))"

definition isfile_xrootd :: "env \<Rightarrow> string \<Rightarrow> world \<Rightarrow> (exn + pyval) \<times> world" where
  "isfile_xrootd E path w =
     (case split_mgm (DEFAULT_MGM w) path None of
        Inl e \<Rightarrow> (Inl e, w)
      | Inr (mgm, lfn) \<Rightarrow>
          (case get_exitcode E [''xrdfs'', mgm, ''stat'', ''-q'', ''IsDir'', lfn] w of
             (Inl e, w') \<Rightarrow> (Inl e, w')
           | (Inr status, w') \<Rightarrow> (Inr (PyBool (status = 55)), w')))"

definition isfile_gfal :: "env \<Rightarrow> string \<Rightarrow> world \<Rightarrow> (exn + pyval) \<times> world" where
  "isfile_gfal E path w =
     (case stat_gfal E path True w of
        (Inl e, w') \<Rightarrow> (Inl e, w')
      | (Inr statinfo, w') \<Rightarrow>
          (case statinfo of
             PyNone \<Rightarrow> (Inr (PyBool False), w')
           | PyInode i \<Rightarrow> (Inr (PyBool (ino_isfile i)), w')
           | _ \<Rightarrow> (Inl AttributeError, w')))"

definition isfile :: "env \<Rightarrow> string \<Rightarrow> world \<Rightarrow> (exn + pyval) \<times> world" where
  "isfile E path w =
     (let val = read_cache ''seutils-cache.isfile'' (strip path) w in
      if val = PyNone then
        (case use_xrootd_path (DEFAULT_MGM w) path of
           Inl e \<Rightarrow> (Inl e, w)
         | Inr xrootd \<Rightarrow>
             (case (if xrootd then isfile_xrootd E path w else isfile_gfal E path w) of
                (Inl e, w') \<Rightarrow> (Inl e, w')
              | (Inr val', w') \<Rightarrow>
                  (Inr val', write_cache ''seutils-cache.isfile'' (strip path) val' w')))
      else (Inr val, w))"

definition is_file_or_dir_gfal :: "env \<Rightarrow> string \<Rightarrow> world \<Rightarrow> (exn + pyval) \<times> world" where
  "is_file_or_dir_gfal E path w =
     (case stat_gfal E path True w of
        (Inl e, w') \<Rightarrow> (Inl e, w')
      | (Inr statinfo, w') \<Rightarrow>
          (case statinfo of
             PyNone \<Rightarrow> (Inr (PyInt 0), w')
           | PyInode i \<Rightarrow>
               if ino_isdir i then (Inr (PyInt 1), w')
               else if ino_isfile i then (Inr (PyInt 2), w')
               else (Inr PyNone, w')
           | _ \<Rightarrow> (Inl AttributeError, w')))"

definition is_file_or_dir_xrootd :: "env \<Rightarrow> string \<Rightarrow> world \<Rightarrow> (exn + pyval) \<times> world" where
  "is_file_or_dir_xrootd E path w =
     (case split_mgm (DEFAULT_MGM w) path None of
        Inl e \<Rightarrow> (Inl e, w)
      | Inr (mgm, lfn) \<Rightarrow>
          (case get_exitcode E [''xrdfs'', mgm, ''stat'', ''-q'', ''IsDir'', lfn] w of
             (Inl e, w') \<Rightarrow> (Inl e, w')
           | (Inr status, w') \<Rightarrow>
               if status = 0 then (Inr (PyInt 1), w')
               else if status = 54 then (Inr (PyInt 0), w')
               else if status = 55 then (Inr (PyInt 2), w')
               else (Inl (RuntimeError Unknown_exit_code), w')))"

definition is_file_or_dir :: "env \<Rightarrow> string \<Rightarrow> world \<Rightarrow> (exn + pyval) \<times> world" where
  "is_file_or_dir E path w =
     (let val = read_cache ''seutils-cache.isfileordir'' (strip path) w in
      if val = PyNone then
        (case use_xrootd_path (DEFAULT_MGM w) path of
           Inl e \<Rightarrow> (Inl e, w)
         | Inr xrootd \<Rightarrow>
             (case (if xrootd then is_file_or_dir_xrootd E path w
                    else is_file_or_dir_gfal E path w) of
                (Inl e, w') \<Rightarrow> (Inl e, w')
              | (Inr val', w') \<Rightarrow>
                  (Inr val', write_cache ''seutils-cache.isfileordir'' (strip path) val' w')))
      else (Inr val, w))"

subsection \<open>listdir\<close>

text \<open>
  \<open>from_statline_xrootd\<close> and \<open>from_statline_gfal\<close> are the class methods of \<open>Inode\<close> that
  read one line of a long listing.  \<open>collect_lines\<close> is the loop of both listing backends:
  strip the line, skip it when empty, append what the line gives.  \<open>listdir\<close> tests the
  cached value with \<open>not val\<close>, the truth value of the object, where the other queries
  test \<open>val is None\<close>.
\<close>

definition from_statline_xrootd :: "env \<Rightarrow> string option \<Rightarrow> string \<Rightarrow> string \<Rightarrow> exn + pyval" where
  "from_statline_xrootd E dm statline mgm =
     (case split_ws (strip statline) of
        [c0, c1, c2, c3, c4] \<Rightarrow>
          (case strptime E (c1 @ '' '' @ c2) ''%Y-%m-%d %H:%M:%S'' of
             None \<Rightarrow> Inl (ValueError Strptime)
           | Some modtime \<Rightarrow>
               (case py_int E c3 of
                  None \<Rightarrow> Inl (ValueError Int_literal)
                | Some sz \<Rightarrow>
                    (case format dm c4 (Some mgm) of
                       Inl e \<Rightarrow> Inl e
                     | Inr path \<Rightarrow>
                         Inr (PyInode \<lparr>ino_path = path, ino_modtime = modtime,
                                ino_isdir = startswith c0 ''d'', ino_size = sz\<rparr>))))
      | _ \<Rightarrow> Inl (RuntimeError Statline_components))"

definition from_statline_gfal :: "env \<Rightarrow> string \<Rightarrow> string \<Rightarrow> exn + pyval" where
  "from_statline_gfal E statline directory =
     (case split_ws (strip statline) of
        c0 # c1 # c2 # c3 # c4 # c5 # c6 # c7 # c8 # _ \<Rightarrow>
          (case strptime E (join '' '' [c5, c6, c7]) ''%b %d %H:%M'' of
             None \<Rightarrow> Inl (ValueError Strptime)
           | Some modtime \<Rightarrow>
               (case py_int E c4 of
                  None \<Rightarrow> Inl (ValueError Int_literal)
                | Some sz \<Rightarrow>
                    Inr (PyInode \<lparr>ino_path = osp_join directory c8, ino_modtime = modtime,
                           ino_isdir = startswith c0 ''d'', ino_size = sz\<rparr>)))
      | _ \<Rightarrow> Inl (RuntimeError Statline_components))"

fun collect_lines :: "(string \<Rightarrow> exn + pyval) \<Rightarrow> string list \<Rightarrow> exn + pyval list" where
  "collect_lines f [] = Inr []"
| "collect_lines f (l0 # ls) =
     (let l = strip l0 in
      if length l = 0 then collect_lines f ls
      else (case f l of
          Inl e \<Rightarrow> Inl e
        | Inr c \<Rightarrow> (case collect_lines f ls of Inl e \<Rightarrow> Inl e | Inr cs \<Rightarrow> Inr (c # cs))))"

definition listdir_xrootd :: "env \<Rightarrow> string \<Rightarrow> bool \<Rightarrow> world \<Rightarrow> (exn + pyval) \<times> world" where
  "listdir_xrootd E directory stat' w =
     (case split_mgm (DEFAULT_MGM w) directory None of
        Inl e \<Rightarrow> (Inl e, w)
      | Inr (mgm, path) \<Rightarrow>
          (case run_command E ([''xrdfs'', mgm, ''ls'', path] @ (if stat' then [''-l''] else []))
                  None False 0 w of
             (Inl e, w') \<Rightarrow> (Inl e, w')
           | (Inr output, w') \<Rightarrow>
               (case lines_of output of
                  Inl e \<Rightarrow> (Inl e, w')
                | Inr ls \<Rightarrow>
                    (case collect_lines
                            (\<lambda>l. if stat' then from_statline_xrootd E (DEFAULT_MGM w) l mgm
                                 else (case format (DEFAULT_MGM w) l (Some mgm) of
                                         Inl e \<Rightarrow> Inl e | Inr p \<Rightarrow> Inr (PyStr p))) ls of
                       Inl e \<Rightarrow> (Inl e, w')
                     | Inr contents \<Rightarrow> (Inr (PyList contents), w')))))"

definition listdir_gfal :: "env \<Rightarrow> string \<Rightarrow> bool \<Rightarrow> world \<Rightarrow> (exn + pyval) \<times> world" where
  "listdir_gfal E directory stat' w =
     (case format (DEFAULT_MGM w) directory None of
        Inl e \<Rightarrow> (Inl e, w)
      | Inr formatted \<Rightarrow>
          (case run_command E ([''gfal-ls'', formatted] @ (if stat' then [''-l''] else []))
                  None False 0 w of
             (Inl e, w') \<Rightarrow> (Inl e, w')
           | (Inr output, w') \<Rightarrow>
               (case lines_of output of
                  Inl e \<Rightarrow> (Inl e, w')
                | Inr ls \<Rightarrow>
                    (case collect_lines
                            (\<lambda>l. if stat' then from_statline_gfal E l directory
                                 else (case format (DEFAULT_MGM w) (osp_join directory l) None of
                                         Inl e \<Rightarrow> Inl e | Inr p \<Rightarrow> Inr (PyStr p))) ls of
                       Inl e \<Rightarrow> (Inl e, w')
                     | Inr contents \<Rightarrow> (Inr (PyList contents), w')))))"

definition listdir :: "env \<Rightarrow> string \<Rightarrow> bool \<Rightarrow> bool \<Rightarrow> world \<Rightarrow> (exn + pyval) \<times> world" where
  "listdir E directory stat' assume_directory w =
     (let key = strip directory @ ''___stat'' @ (if stat' then ''True'' else ''False'');
          val = read_cache ''seutils-cache.listdir'' key w
      in
      if \<not> truthy val then
        (case (if \<not> assume_directory then
                 (case isdir E directory w of
                    (Inl e, w') \<Rightarrow> (Inl e, w')
                  | (Inr d, w') \<Rightarrow>
                      if \<not> truthy d then (Inl (RuntimeError Not_a_valid_directory), w')
                      else (Inr (), w'))
               else (Inr (), w)) of
           (Inl e, w1) \<Rightarrow> (Inl e, w1)
         | (Inr _, w1) \<Rightarrow>
             (case use_xrootd_path (DEFAULT_MGM w1) directory of
                Inl e \<Rightarrow> (Inl e, w1)
              | Inr xrootd \<Rightarrow>
                  (case (if xrootd then listdir_xrootd E directory stat' w1
                         else listdir_gfal E directory stat' w1) of
                     (Inl e, w2) \<Rightarrow> (Inl e, w2)
                   | (Inr val', w2) \<Rightarrow>
                       (Inr val', write_cache ''seutils-cache.listdir'' key val' w2))))
      else (Inr val, w))"

section \<open>Algorithms that use the interactions\<close>

subsection \<open>ls\<close>

text \<open>\<open>status == k\<close> on a Python value: a \<open>bool\<close> compares as the integer it is.\<close>

definition py_eq_int :: "pyval \<Rightarrow> int \<Rightarrow> bool" where
  "py_eq_int v k =
     (case v of PyInt n \<Rightarrow> n = k | PyBool b \<Rightarrow> (if b then 1 else 0) = k | _ \<Rightarrow> False)"

definition ls :: "env \<Rightarrow> string \<Rightarrow> bool \<Rightarrow> bool \<Rightarrow> bool \<Rightarrow> world \<Rightarrow> (exn + pyval) \<times> world" where
  "ls E path stat' assume_directory no_expand_directory w =
     (case format (DEFAULT_MGM w) path None of
        Inl e \<Rightarrow> (Inl e, w)
      | Inr path' \<Rightarrow>
          (case get_protocol (DEFAULT_MGM w) path' None of
             Inl e \<Rightarrow> (Inl e, w)
           | Inr protocol \<Rightarrow>
               (case (if assume_directory then (Inr (PyInt 1), w) else is_file_or_dir E path' w) of
                  (Inl e, w1) \<Rightarrow> (Inl e, w1)
                | (Inr status, w1) \<Rightarrow>
                    (let path_or_inode =
                           (if stat' then
                              (case stat E path' False w1 of
                                 (Inl e, w2) \<Rightarrow> (Inl e, w2)
                               | (Inr i, w2) \<Rightarrow> (Inr (PyList [i]), w2))
                            else (Inr (PyList [PyStr path']), w1))
                     in
                     if py_eq_int status 0 then (Inl (RuntimeError Path_does_not_exist), w1)
                     else if py_eq_int status 1 then
                       (if no_expand_directory then path_or_inode
                        else listdir E path' stat' True w1)
                     else if py_eq_int status 2 then path_or_inode
                     else (Inr PyNone, w1)))))"

subsection \<open>Regular expressions\<close>

text \<open>
  The patterns the package compiles are paths in which every \<open>*\<close> has been replaced by
  \<open>.*\<close>.  The model of \<open>re.compile\<close> covers ordinary characters, \<open>.\<close> (any character but a
  newline) and a \<open>*\<close> after one of these.  \<open>regex.match\<close> anchors the match at the start of
  the string and not at its end.
\<close>

datatype atom = AnyChar | Lit char

datatype piece = One atom | Star atom

definition atom_ok :: "atom \<Rightarrow> char \<Rightarrow> bool" where
  "atom_ok a c = (case a of AnyChar \<Rightarrow> c \<noteq> CHR 0x0A | Lit x \<Rightarrow> c = x)"

definition other_metacharacters :: "char list" where
  "other_metacharacters =
     [CHR 0x5C, CHR ''^'', CHR ''$'', CHR ''+'', CHR ''?'', CHR ''{'', CHR ''}'',
      CHR ''['', CHR '']'', CHR ''|'', CHR ''('', CHR '')'']"

fun re_compile :: "string \<Rightarrow> exn + piece list" where
  "re_compile [] = Inr []"
| "re_compile (c # cs) =
     (if c \<in> set other_metacharacters then Inl Regex_not_modelled
      else if c = CHR ''*'' then Inl ReError
      else (let a = (if c = CHR ''.'' then AnyChar else Lit c) in
        case cs of
          [] \<Rightarrow> Inr [One a]
        | d # ds \<Rightarrow>
            if d = CHR ''*'' then
              (case re_compile ds of Inl e \<Rightarrow> Inl e | Inr ps \<Rightarrow> Inr (Star a # ps))
            else (case re_compile cs of Inl e \<Rightarrow> Inl e | Inr ps \<Rightarrow> Inr (One a # ps))))"

fun re_match :: "piece list \<Rightarrow> string \<Rightarrow> bool" where
  "re_match [] s = True"
| "re_match (One a # ps) [] = False"
| "re_match (One a # ps) (c # cs) = (atom_ok a c \<and> re_match ps cs)"
| "re_match (Star a # ps) [] = re_match ps []"
| "re_match (Star a # ps) (c # cs) =
     (re_match ps (c # cs) \<or> (atom_ok a c \<and> re_match (Star a # ps) cs))"

subsection \<open>walk\<close>

text \<open>
  \<open>walk\<close> is a generator.  The model runs it together with the loop that consumes it: the
  consumer is a function from its own state and the yielded triple (path, directories,
  files) to the directory list as the loop body leaves it (the list is mutable) and the new
  state, or to the exception the body raises.  The loop is run to its end.

  \<open>_walk\<close> is \<open>walk_from\<close>.  Its first argument is the number of nested calls the interpreter
  still allows (\<open>RecursionError\<close> at zero); the \<open>Counter\<close> object shared by the recursive calls
  is the first component of the state.  \<open>for_each\<close> is a \<open>for\<close> loop whose body may raise.
\<close>

type_synonym triple = "string \<times> pyval list \<times> pyval list"

fun for_each :: "('x \<Rightarrow> 's \<Rightarrow> exn option \<times> 's) \<Rightarrow> 'x list \<Rightarrow> 's \<Rightarrow> exn option \<times> 's" where
  "for_each f [] s = (None, s)"
| "for_each f (x # xs) s =
     (case f x s of
        (Some e, s') \<Rightarrow> (Some e, s')
      | (None, s') \<Rightarrow> for_each f xs s')"

fun inodes_of :: "pyval list \<Rightarrow> exn + Inode list" where
  "inodes_of [] = Inr []"
| "inodes_of (PyInode i # vs) =
     (case inodes_of vs of Inl e \<Rightarrow> Inl e | Inr is \<Rightarrow> Inr (i # is))"
| "inodes_of (_ # vs) = Inl AttributeError"

fun walk_from ::
  "nat \<Rightarrow> env \<Rightarrow> ('a \<Rightarrow> triple \<Rightarrow> exn + (pyval list \<times> 'a)) \<Rightarrow> string \<Rightarrow> bool
     \<Rightarrow> nat \<times> 'a \<times> world \<Rightarrow> exn option \<times> (nat \<times> 'a \<times> world)" where
  "walk_from 0 E consumer path stat' (counter, acc, w) = (Some RecursionError, (counter, acc, w))"
| "walk_from (Suc rl) E consumer path stat' (counter, acc, w) =
     (if counter \<ge> MAX_RECURSION_DEPTH w
      then (Some (RuntimeError Max_recursion_depth), (counter, acc, w))
      else (case ls E path True True False w of
          (Inl e, w1) \<Rightarrow> (Some e, (counter, acc, w1))
        | (Inr contents, w1) \<Rightarrow>
            (case (case contents of PyList vs \<Rightarrow> inodes_of vs | _ \<Rightarrow> Inl (TypeError Not_iterable)) of
               Inl e \<Rightarrow> (Some e, (counter + 1, acc, w1))
             | Inr cs \<Rightarrow>
                 (let files = sort_key ino_basename (filter ino_isfile cs);
                      directories = sort_key ino_basename (filter ino_isdir cs)
                  in
                  if stat' then
                    (case consumer acc (path, map PyInode directories, map PyInode files) of
                       Inl e \<Rightarrow> (Some e, (counter + 1, acc, w1))
                     | Inr (directories', acc') \<Rightarrow>
                         for_each
                           (\<lambda>directory s.
                              case directory of
                                PyInode i \<Rightarrow> walk_from rl E consumer (ino_path i) stat' s
                              | _ \<Rightarrow> (Some AttributeError, s))
                           directories' (counter + 1, acc', w1))
                  else
                    (let dirnames = map (\<lambda>d. PyStr (ino_path d)) directories in
                     case consumer acc (path, dirnames, map (\<lambda>f. PyStr (ino_path f)) files) of
                       Inl e \<Rightarrow> (Some e, (counter + 1, acc, w1))
                     | Inr (dirnames', acc') \<Rightarrow>
                         for_each
                           (\<lambda>directory s. walk_from rl E consumer (ino_path directory) stat' s)
                           (filter (\<lambda>d. PyStr (ino_path d) \<in> set dirnames') directories)
                           (counter + 1, acc', w1))))))"

definition walk ::
  "nat \<Rightarrow> env \<Rightarrow> ('a \<Rightarrow> triple \<Rightarrow> exn + (pyval list \<times> 'a)) \<Rightarrow> string \<Rightarrow> bool
     \<Rightarrow> 'a \<Rightarrow> world \<Rightarrow> exn option \<times> 'a \<times> world" where
  "walk rl E consumer path stat' acc w =
     (case format (DEFAULT_MGM w) path None of
        Inl e \<Rightarrow> (Some e, acc, w)
      | Inr path' \<Rightarrow>
          (case is_file_or_dir E path' w of
             (Inl e, w1) \<Rightarrow> (Some e, acc, w1)
           | (Inr status, w1) \<Rightarrow>
               if \<not> py_eq_int status 1 then (Some (RuntimeError Not_a_directory), acc, w1)
               else (case walk_from rl E consumer path' stat' (0, acc, w1) of
                       (r, (counter, acc', w2)) \<Rightarrow> (r, acc', w2))))"

text \<open>The loop \<open>for triple in walk(path): result.append(triple)\<close>, which changes nothing.\<close>

definition collect :: "triple list \<Rightarrow> triple \<Rightarrow> exn + (pyval list \<times> triple list)" where
  "collect acc t = (case t of (path, directories, files) \<Rightarrow> Inr (directories, acc @ [t]))"

text \<open>
  The loop \<open>for path, dirs, files in walk(path): del dirs[:]\<close>, which empties every yielded
  directory list, as a caller of \<open>os.walk\<close> does to keep the walk out of the directories.
\<close>

definition prune :: "unit \<Rightarrow> triple \<Rightarrow> exn + (pyval list \<times> unit)" where
  "prune acc t = Inr ([], acc)"


subsection \<open>ls_wildcard\<close>

text \<open>
  \<open>filter_by\<close> is a list comprehension whose condition may raise.  The three conditions
  are \<open>regex.match(osp.basename(c))\<close>, \<open>regex.match(d.path)\<close> and \<open>regex.match(d)\<close>.
  \<open>wildcard_body\<close> is the body of the loop over \<open>walk(base, stat=stat)\<close>; its state is the
  list \<open>matches\<close>.
\<close>

fun filter_by :: "(pyval \<Rightarrow> exn + bool) \<Rightarrow> pyval list \<Rightarrow> exn + pyval list" where
  "filter_by t [] = Inr []"
| "filter_by t (v # vs) =
     (case t v of
        Inl e \<Rightarrow> Inl e
      | Inr b \<Rightarrow>
          (case filter_by t vs of
             Inl e \<Rightarrow> Inl e
           | Inr r \<Rightarrow> Inr (if b then v # r else r)))"

definition match_basename :: "piece list \<Rightarrow> pyval \<Rightarrow> exn + bool" where
  "match_basename regex v =
     (case v of PyStr c \<Rightarrow> Inr (re_match regex (basename c)) | _ \<Rightarrow> Inl (TypeError Not_a_string))"

definition match_path :: "piece list \<Rightarrow> pyval \<Rightarrow> exn + bool" where
  "match_path regex v =
     (case v of PyInode d \<Rightarrow> Inr (re_match regex (ino_path d)) | _ \<Rightarrow> Inl AttributeError)"

definition match_str :: "piece list \<Rightarrow> pyval \<Rightarrow> exn + bool" where
  "match_str regex v =
     (case v of PyStr d \<Rightarrow> Inr (re_match regex d) | _ \<Rightarrow> Inl (TypeError Not_a_string))"

definition first :: "string list \<Rightarrow> exn + string" where
  "first xs = (case xs of [] \<Rightarrow> Inl IndexError | x # _ \<Rightarrow> Inr x)"

definition wildcard_body ::
  "string \<Rightarrow> nat \<Rightarrow> bool \<Rightarrow> pyval list \<Rightarrow> triple \<Rightarrow> exn + (pyval list \<times> pyval list)" where
  "wildcard_body pattern pattern_level stat' matches t =
     (case t of (path, directories, files) \<Rightarrow>
        (let level = count_chr CHR ''/'' path;
             trimmed_pattern =
               replace ''*'' ''.*'' (join ''/'' (take (level + 2) (split_chr CHR ''/'' pattern)))
         in
         case re_compile trimmed_pattern of
           Inl e \<Rightarrow> Inl e
         | Inr regex \<Rightarrow>
             (case filter_by (if stat' then match_path regex else match_str regex) directories of
                Inl e \<Rightarrow> Inl e
              | Inr directories' \<Rightarrow>
                  if level + 1 = pattern_level then
                    (case filter_by (if stat' then match_path regex else match_str regex) files of
                       Inl e \<Rightarrow> Inl e
                     | Inr fs \<Rightarrow> Inr ([], matches @ directories' @ fs))
                  else Inr (directories', matches))))"

definition ls_wildcard ::
  "nat \<Rightarrow> env \<Rightarrow> string \<Rightarrow> bool \<Rightarrow> world \<Rightarrow> (exn + pyval) \<times> world" where
  "ls_wildcard rl E pattern stat' w =
     (case format (DEFAULT_MGM w) pattern None of
        Inl e \<Rightarrow> (Inl e, w)
      | Inr pattern' \<Rightarrow>
          if \<not> contains ''*'' pattern' then ls E pattern' stat' False True w
          else (case first (rsplit1 ''/'' pattern') of
              Inl e \<Rightarrow> (Inl e, w)
            | Inr front \<Rightarrow>
                if \<not> stat' \<and> \<not> contains ''*'' front then
                  (case rsplit1 ''/'' pattern' of
                     [directory, last_part] \<Rightarrow>
                       (case ls E directory False False False w of
                          (Inl e, w1) \<Rightarrow> (Inl e, w1)
                        | (Inr contents, w1) \<Rightarrow>
                            if last_part = ''*'' then (Inr contents, w1)
                            else (case re_compile (replace ''*'' ''.*'' last_part) of
                                Inl e \<Rightarrow> (Inl e, w1)
                              | Inr regex \<Rightarrow>
                                  (case contents of
                                     PyList cs \<Rightarrow>
                                       (case filter_by (match_basename regex) cs of
                                          Inl e \<Rightarrow> (Inl e, w1)
                                        | Inr r \<Rightarrow> (Inr (PyList r), w1))
                                   | _ \<Rightarrow> (Inl (TypeError Not_iterable), w1))))
                   | _ \<Rightarrow> (Inl (ValueError Unpack), w))
                else
                  (case first (split1 ''*'' pattern') of
                     Inl e \<Rightarrow> (Inl e, w)
                   | Inr before_star \<Rightarrow>
                       (case first (rsplit1 ''/'' before_star) of
                          Inl e \<Rightarrow> (Inl e, w)
                        | Inr base \<Rightarrow>
                            (case walk rl E
                                    (wildcard_body pattern' (count_chr CHR ''/'' pattern') stat')
                                    base stat' [] w of
                               (Some e, matches, w1) \<Rightarrow> (Inl e, w1)
                             | (None, matches, w1) \<Rightarrow> (Inr (PyList matches), w1))))))"

section \<open>Merging ROOT files in chunks\<close>

text \<open>
  \<open>_hadd\<close> and \<open>_hadd_chunks\<close> of \<open>rootutils\<close>.  The jobs given to the worker pool are run
  here one after the other, in the order of the chunks and all of them, and the first
  exception among them is raised when the last has ended; what the workers do at the same
  time is not modelled; \<open>Pool(n_threads)\<close> raises \<open>ValueError\<close> when \<open>n_threads\<close> is less than
  one.  \<open>math.ceil(len(root_files) / float(chunk_size))\<close> is taken on the exact quotient.  \<open>os.makedirs\<close> raises the \<open>OSError\<close> with errno 17 when the directory
  is there already, and makes the parent \<open>tmphadd\<close> too; \<open>shutil.rmtree\<close> removes the
  directory and what lies under it.  The first argument of \<open>hadd_chunks_rec\<close> is the number
  of nested calls the interpreter still allows.  An empty list of files makes the source read
  the name \<open>src\<close>, which \<open>_hadd_chunks\<close> does not bind.
\<close>

definition digit :: "nat \<Rightarrow> char" where
  "digit d = ''0123456789'' ! d"

function string_of_nat :: "nat \<Rightarrow> string" where
  "string_of_nat n =
     (if n < 10 then [digit n] else string_of_nat (n div 10) @ [digit (n mod 10)])"
  by pat_completeness auto
termination
  by (relation "measure id") auto

declare string_of_nat.simps [simp del]

definition hadd :: "env \<Rightarrow> string list \<Rightarrow> string \<Rightarrow> bool \<Rightarrow> world \<Rightarrow> exn option \<times> world" where
  "hadd E root_files dst dry w =
     (if dry then (None, w)
      else (case run_command E ([''hadd'', ''-f'', dst] @ root_files) None False 0 w of
          (Inl (OSError errno), w') \<Rightarrow> if errno = 2 then (None, w') else (Some (OSError errno), w')
        | (Inl e, w') \<Rightarrow> (Some e, w')
        | (Inr output, w') \<Rightarrow> (None, w')))"

definition makedirs :: "string \<Rightarrow> string \<Rightarrow> world \<Rightarrow> exn option \<times> world" where
  "makedirs parent leaf w =
     (if osp_join parent leaf \<in> set (directories_made w) then (Some (OSError 17), w)
      else (None, w\<lparr>directories_made :=
              directories_made w
              @ (if parent \<in> set (directories_made w) then [] else [parent])
              @ [osp_join parent leaf]\<rparr>))"

definition rmtree :: "string \<Rightarrow> world \<Rightarrow> world" where
  "rmtree d w =
     w\<lparr>directories_made :=
         filter (\<lambda>q. q \<noteq> d \<and> \<not> startswith q (d @ ''/'')) (directories_made w)\<rparr>"

fun pool_map :: "(string list \<times> string \<times> bool \<Rightarrow> world \<Rightarrow> exn option \<times> world)
    \<Rightarrow> (string list \<times> string \<times> bool) list \<Rightarrow> world \<Rightarrow> exn option \<times> world" where
  "pool_map f [] w = (None, w)"
| "pool_map f (job # jobs) w =
     (case f job w of
        (r, w1) \<Rightarrow>
          (case pool_map f jobs w1 of
             (r', w2) \<Rightarrow> ((case r of None \<Rightarrow> r' | Some e \<Rightarrow> Some e), w2)))"

definition hadd_packed :: "env \<Rightarrow> string list \<times> string \<times> bool \<Rightarrow> world \<Rightarrow> exn option \<times> world" where
  "hadd_packed E tup w = (case tup of (root_files, dst, dry) \<Rightarrow> hadd E root_files dst dry w)"

fun hadd_chunks_rec ::
  "nat \<Rightarrow> env \<Rightarrow> string list \<Rightarrow> string \<Rightarrow> int \<Rightarrow> int \<Rightarrow> string \<Rightarrow> bool \<Rightarrow> world
     \<Rightarrow> exn option \<times> world" where
  "hadd_chunks_rec 0 E root_files dst n_threads chunk_size tmpdir dry w = (Some RecursionError, w)"
| "hadd_chunks_rec (Suc rl) E root_files dst n_threads chunk_size tmpdir dry w =
     (if length root_files = 0 then (Some (NameError ''src''), w)
      else if int (length root_files) < chunk_size then hadd E root_files dst dry w
      else if chunk_size = 0 then (Some ZeroDivisionError, w)
      else
        (let n_chunks = nat (- ((- int (length root_files)) div chunk_size));
             parent = osp_join tmpdir ''tmphadd'';
             leaf = uuid4 E (uuids_drawn w);
             tmpdir' = osp_join parent leaf
         in
         case makedirs parent leaf (w\<lparr>uuids_drawn := uuids_drawn w + 1\<rparr>) of
           (Some e, w1) \<Rightarrow> (Some e, w1)
         | (None, w1) \<Rightarrow>
             (let func_args =
                    map (\<lambda>i_chunk.
                           (take (nat chunk_size) (drop (i_chunk * nat chunk_size) root_files),
                            osp_join tmpdir' (''chunk'' @ string_of_nat i_chunk @ ''.root''),
                            dry))
                      [0..<n_chunks];
                  chunk_rootfiles = map (\<lambda>(chunk, chunk_dst, d). chunk_dst) func_args
              in
              case (if \<not> dry then
                      (if n_threads < 1 then (Some (ValueError Pool_processes), w1)
                       else pool_map (hadd_packed E) func_args w1)
                    else (None, w1)) of
                (Some e, w2) \<Rightarrow> (Some e, rmtree tmpdir' w2)
              | (None, w2) \<Rightarrow>
                  (case hadd_chunks_rec rl E chunk_rootfiles dst n_threads chunk_size tmpdir' dry w2 of
                     (r, w3) \<Rightarrow> (r, rmtree tmpdir' w3)))))"

section \<open>Concrete worlds\<close>

text \<open>
  The state of the module right after import when the environment variable
  \<open>SEU_DEFAULT_MGM\<close> is not set, and an outside world in which every process ends with the
  same return code and prints nothing.  The properties below are evaluated on them.
\<close>

definition initial_world :: world where
  "initial_world =
     \<lparr>DRYMODE = False, DEFAULT_MGM = None, USE_CACHE = False, CACHES = (\<lambda>n k. None),
      MAX_RECURSION_DEPTH = 20, commands = [], slept = 0, directories_made = [],
      uuids_drawn = 0\<rparr>"

definition exits_with :: "int \<Rightarrow> env" where
  "exits_with returncode =
     \<lparr>exec = (\<lambda>cmd k. Exited returncode []), py_int = (\<lambda>s. None),
      strptime = (\<lambda>s fmt. None), uuid4 = (\<lambda>k. ''uuid'' @ string_of_nat k)\<rparr>"

text \<open>
  A storage element given by its entries, a list of logical paths each with the flag
  ``is a directory'', and the answers of \<open>xrdfs\<close> on it: \<open>stat -q IsDir\<close> ends with 0 on a
  directory, 55 on a file and 54 on a path that is not there; \<open>ls\<close> prints the full logical
  paths of the entries of a directory, one per line, and \<open>ls -l\<close> puts mode, date, time and
  size before each.  All sizes are 0 and all dates the same here, and \<open>strptime\<close> and \<open>int\<close>
  are stand-ins that accept them.
\<close>

definition parent_of :: "string \<Rightarrow> string" where
  "parent_of q = (case rsplit1 ''/'' q of [d, b] \<Rightarrow> (if d = [] then ''/'' else d) | _ \<Rightarrow> [])"

definition statline :: "string \<times> bool \<Rightarrow> string" where
  "statline e =
     (case e of (q, d) \<Rightarrow>
        (if d then ''dr-x'' else ''-r--'') @ '' 2020-01-01 00:00:00 0 '' @ q @ [CHR 0x0A])"

definition xrdfs :: "(string \<times> bool) list \<Rightarrow> string list \<Rightarrow> proc" where
  "xrdfs entries cmd =
     (if length cmd = 6 \<and> take 1 cmd = [''xrdfs'']
         \<and> take 3 (drop 2 cmd) = [''stat'', ''-q'', ''IsDir'']
      then (if (cmd ! 5, True) \<in> set entries then Exited 0 []
            else if (cmd ! 5, False) \<in> set entries then Exited 55 []
            else Exited 54 [])
      else if length cmd = 4 \<and> take 1 cmd = [''xrdfs''] \<and> cmd ! 2 = ''ls''
      then (if (cmd ! 3, True) \<in> set entries
            then Exited 0 (map (\<lambda>e. fst e @ [CHR 0x0A])
                            (filter (\<lambda>e. parent_of (fst e) = cmd ! 3) entries))
            else Exited 54 [])
      else if length cmd = 5 \<and> take 1 cmd = [''xrdfs''] \<and> cmd ! 2 = ''ls'' \<and> cmd ! 4 = ''-l''
      then (if (cmd ! 3, True) \<in> set entries
            then Exited 0 (map statline (filter (\<lambda>e. parent_of (fst e) = cmd ! 3) entries))
            else Exited 54 [])
      else Exited 50 [])"

definition storage_element :: "(string \<times> bool) list \<Rightarrow> env" where
  "storage_element entries =
     \<lparr>exec = (\<lambda>cmd k. xrdfs entries cmd),
      py_int = (\<lambda>s. if s = ''0'' then Some 0 else None),
      strptime = (\<lambda>s fmt. if s = ''2020-01-01 00:00:00'' then Some 0 else None),
      uuid4 = (\<lambda>k. ''uuid'' @ string_of_nat k)\<rparr>"

definition small_tree :: "(string \<times> bool) list" where
  "small_tree =
     [(''/a'', True), (''/a/b'', True), (''/a/b/c'', True), (''/a/b/c/z.txt'', False),
      (''/a/b/x.txt'', False), (''/a/b/y.root'', False)]"

definition world_at_fnal :: world where
  "world_at_fnal = initial_world\<lparr>DEFAULT_MGM := Some ''root://cmseos.fnal.gov''\<rparr>"

section \<open>Listing requests and directory trees\<close>

text \<open>
  The notions the property of \<open>walk\<close> is stated with.  A listing request is a command
  \<open>xrdfs mgm ls ...\<close> or \<open>gfal-ls ...\<close>; \<open>listing_requests\<close> counts those issued so far.  A
  tree gives for each node its \<open>Inode\<close> and the nodes below it; \<open>ndirs\<close> is the number of
  directories a walk without pruning has to list, the root and every directory reached
  through directories.  The storage element \<open>serves\<close> a tree when, the cache and dry mode
  being off, listing a directory of the tree with \<open>ls(path, stat=True,
  assume_directory=True)\<close> costs one listing request and returns the \<open>Inode\<close>s of the nodes
  below it, at any moment.
\<close>

datatype tree = Node Inode "tree list"


fun ndirs :: "tree \<Rightarrow> nat" where
  "ndirs (Node i cs) = (if ino_isdir i then 1 + sum_list (map ndirs cs) else 0)"

definition is_listing :: "string list \<Rightarrow> bool" where
  "is_listing cmd =
     (take 1 cmd = [''gfal-ls''] \<or> (take 1 cmd = [''xrdfs''] \<and> take 1 (drop 2 cmd) = [''ls'']))"

definition listing_requests :: "world \<Rightarrow> nat" where
  "listing_requests w = length (filter is_listing (commands w))"




definition walked ::
  "exn option \<times> (nat \<times> 'a \<times> world) \<Rightarrow> nat \<Rightarrow> nat \<times> 'a \<times> world \<Rightarrow> bool" where
  "walked result n s =
     (case s of (k, a, w) \<Rightarrow> case result of (r, (k', a', w')) \<Rightarrow>
        r = (if k + n \<le> MAX_RECURSION_DEPTH w then None
             else Some (RuntimeError Max_recursion_depth))
        \<and> k' = min (k + n) (MAX_RECURSION_DEPTH w)
        \<and> \<not> USE_CACHE w' \<and> \<not> DRYMODE w'
        \<and> MAX_RECURSION_DEPTH w' = MAX_RECURSION_DEPTH w
        \<and> listing_requests w' = listing_requests w + (k' - k))"


text \<open>The tree of the storage element \<open>small_tree\<close> below \<open>/a\<close>, as \<open>xrdfs\<close> lists it.\<close>

definition at_fnal :: "string \<Rightarrow> bool \<Rightarrow> Inode" where
  "at_fnal lfn d =
     \<lparr>ino_path = ''root://cmseos.fnal.gov/'' @ lfn, ino_modtime = 0, ino_isdir = d,
      ino_size = 0\<rparr>"

definition small_tree_nodes :: tree where
  "small_tree_nodes =
     Node (at_fnal ''/a'' True)
       [Node (at_fnal ''/a/b'' True)
          [Node (at_fnal ''/a/b/c'' True) [Node (at_fnal ''/a/b/c/z.txt'' False) []],
           Node (at_fnal ''/a/b/x.txt'' False) [],
           Node (at_fnal ''/a/b/y.root'' False) []]]"

section \<open>Worlds that differ by the commands issued\<close>

text \<open>
  \<open>only_commands w w'\<close>: the state \<open>w'\<close> is the state \<open>w\<close> with further commands in its
  log and nothing else changed, which is all a backend query does to the state.
\<close>

definition only_commands :: "world \<Rightarrow> world \<Rightarrow> bool" where
  "only_commands w w' = (\<exists>cs. w' = w\<lparr>commands := commands w @ cs\<rparr>)"

section \<open>Properties of the path functions\<close>

lemma split1_not_contains: "\<not> contains sep s \<Longrightarrow> split1 sep s = [s]"
  by (induction s) auto

lemma contains_iff: "contains sub s \<longleftrightarrow> (\<exists>a b. s = a @ sub @ b)"
proof (induction s)
  case Nil
  then show ?case by auto
next
  case (Cons c cs)
  show ?case
  proof
    assume "contains sub (c # cs)"
    then consider "startswith (c # cs) sub" | "contains sub cs" by auto
    then show "\<exists>a b. c # cs = a @ sub @ b"
    proof cases
      case 1
      then have "c # cs = [] @ sub @ drop (length sub) (c # cs)"
        by (metis append_Nil append_take_drop_id startswith_def)
      then show ?thesis by blast
    next
      case 2
      with Cons.IH obtain a b where "cs = a @ sub @ b" by blast
      then have "c # cs = (c # a) @ sub @ b" by simp
      then show ?thesis by blast
    qed
  next
    assume "\<exists>a b. c # cs = a @ sub @ b"
    then obtain a b where ab: "c # cs = a @ sub @ b" by blast
    show "contains sub (c # cs)"
    proof (cases a)
      case Nil
      with ab have "startswith (c # cs) sub" by (simp add: startswith_def)
      then show ?thesis by simp
    next
      case (Cons x a')
      with ab have "cs = a' @ sub @ b" by simp
      with Cons.IH have "contains sub cs" by blast
      then show ?thesis by simp
    qed
  qed
qed

lemma contains_length: "contains sub s \<Longrightarrow> length sub \<le> length s"
  by (auto simp: contains_iff)

lemma startswith_longer:
  assumes "length sep \<le> length u" "startswith (u @ v) sep"
  shows "startswith u sep"
  using assms by (simp add: startswith_def)

lemma split1_first:
  "sep \<noteq> [] \<Longrightarrow> \<not> contains sep (a @ butlast sep) \<Longrightarrow> split1 sep (a @ sep @ b) = [a, b]"
proof (induction a)
  case Nil
  then show ?case by (cases sep) (auto simp: startswith_def)
next
  case (Cons x a)
  have nc: "\<not> contains sep (a @ butlast sep)" using Cons.prems(2) by simp
  have ns: "\<not> startswith ((x # a) @ butlast sep) sep" using Cons.prems(2) by simp
  have "(x # a) @ sep @ b = ((x # a) @ butlast sep) @ (last sep # b)"
    using Cons.prems(1) by simp
  moreover have "length sep \<le> length ((x # a) @ butlast sep)" by simp
  ultimately have "\<not> startswith ((x # a) @ sep @ b) sep"
    using ns startswith_longer by metis
  with Cons.IH[OF Cons.prems(1) nc] show ?case by simp
qed

lemma split1_pair:
  "sep \<noteq> [] \<Longrightarrow> split1 sep s = [a, b] \<Longrightarrow> s = a @ sep @ b \<and> \<not> contains sep (a @ butlast sep)"
proof (induction s arbitrary: a)
  case Nil
  then show ?case by simp
next
  case (Cons c cs)
  show ?case
  proof (cases "startswith (c # cs) sep")
    case True
    with Cons.prems have a: "a = []" and b: "b = drop (length sep) (c # cs)" by auto
    from True have "c # cs = sep @ drop (length sep) (c # cs)"
      by (metis append_take_drop_id startswith_def)
    moreover have "\<not> contains sep (butlast sep)"
      using contains_length[of sep "butlast sep"] Cons.prems(1) by (cases sep) auto
    ultimately show ?thesis using a b by simp
  next
    case False
    with Cons.prems(2) obtain a' where s: "split1 sep cs = [a', b]" and a: "a = c # a'"
      by (auto split: list.splits)
    from Cons.IH[OF Cons.prems(1) s] have cs: "cs = a' @ sep @ b"
      and nc: "\<not> contains sep (a' @ butlast sep)" by auto
    have "(c # cs) = ((c # a') @ butlast sep) @ (last sep # b)"
      using cs Cons.prems(1) by simp
    moreover have "length sep \<le> length ((c # a') @ butlast sep)" by simp
    ultimately have "\<not> startswith ((c # a') @ butlast sep) sep"
      using False startswith_def by (metis take_append take_all_iff append.right_neutral diff_is_0_eq' take_0)
    with nc cs a show ?thesis by simp
  qed
qed

lemma endswith_slash: "endswith s ''/'' \<longleftrightarrow> (\<exists>t. s = t @ ''/'')"
proof
  assume "endswith s ''/''"
  then have "s = take (length s - 1) s @ ''/''"
    by (metis One_nat_def append_take_drop_id endswith_def length_Cons list.size(3))
  then show "\<exists>t. s = t @ ''/''" by blast
next
  assume "\<exists>t. s = t @ ''/''"
  then show "endswith s ''/''" by (auto simp: endswith_def)
qed

lemma no_dslash_end:
  "\<not> contains ''//'' (server @ ''/'') \<longleftrightarrow> \<not> contains ''//'' server \<and> \<not> endswith server ''/''"
proof -
  have "contains ''//'' (server @ ''/'') \<longleftrightarrow> contains ''//'' server \<or> endswith server ''/''"
  proof
    assume "contains ''//'' (server @ ''/'')"
    then obtain a b where ab: "server @ ''/'' = a @ ''//'' @ b" by (auto simp: contains_iff)
    show "contains ''//'' server \<or> endswith server ''/''"
    proof (cases b rule: rev_cases)
      case Nil
      with ab have "server = a @ ''/''" by simp
      then show ?thesis by (auto simp: endswith_slash)
    next
      case (snoc b' x)
      with ab have "server @ ''/'' = (a @ ''//'' @ b') @ [x]" by simp
      then have "server = a @ ''//'' @ b'" by (metis append1_eq_conv)
      then show ?thesis by (auto simp: contains_iff)
    qed
  next
    assume "contains ''//'' server \<or> endswith server ''/''"
    then show "contains ''//'' (server @ ''/'')"
    proof
      assume "contains ''//'' server"
      then obtain a b where "server = a @ ''//'' @ b" by (auto simp: contains_iff)
      then have "server @ ''/'' = a @ ''//'' @ (b @ ''/'')" by simp
      then show ?thesis unfolding contains_iff by blast
    next
      assume "endswith server ''/''"
      then obtain t where "server = t @ ''/''" by (auto simp: endswith_slash)
      then have "server @ ''/'' = t @ ''//'' @ []" by simp
      then show ?thesis unfolding contains_iff by blast
    qed
  qed
  then show ?thesis by blast
qed

lemma endswith_last: "endswith s ''/'' \<longleftrightarrow> s \<noteq> [] \<and> last s = CHR ''/''"
proof (cases s rule: rev_cases)
  case Nil
  then show ?thesis by (simp add: endswith_def)
next
  case (snoc t x)
  then show ?thesis by (auto simp: endswith_slash)
qed

lemma endswith_append: "s \<noteq> [] \<Longrightarrow> endswith (a @ s) ''/'' = endswith s ''/''"
  by (simp add: endswith_last)

text \<open>Parsing a URL assembled from well-separated parts, and the converse.\<close>

lemma split_protocol_pfn_assembled:
  assumes "\<not> contains ''://'' (protocol @ '':/'')" "\<not> contains ''//'' (server @ ''/'')"
  shows "split_protocol_pfn (protocol @ ''://'' @ server @ ''//'' @ rest) = Inr (protocol, server, ''/'' @ rest)"
proof -
  let ?url = "protocol @ ''://'' @ server @ ''//'' @ rest"
  have hp: "has_protocol ?url" unfolding has_protocol_def contains_iff by blast
  have s1: "split1 ''://'' ?url = [protocol, server @ ''//'' @ rest]"
    using split1_first[of "''://''" protocol "server @ ''//'' @ rest"] assms(1) by simp
  have c2: "contains ''//'' (server @ ''//'' @ rest)" unfolding contains_iff by blast
  have s2: "split1 ''//'' (server @ ''//'' @ rest) = [server, rest]"
    using split1_first[of "''//''" server rest] assms(2) by simp
  show ?thesis unfolding split_protocol_pfn_def using hp s1 c2 s2 by simp
qed

lemma split_protocol_pfn_Inr:
  assumes "split_protocol_pfn s = Inr (protocol, server, lfn)"
  shows "\<exists>rest. s = protocol @ ''://'' @ server @ ''//'' @ rest \<and> lfn = ''/'' @ rest
           \<and> \<not> contains ''://'' (protocol @ '':/'') \<and> \<not> contains ''//'' (server @ ''/'')
           \<and> has_protocol s"
proof -
  from assms have hp: "has_protocol s"
    by (auto simp: split_protocol_pfn_def split: if_splits)
  from assms hp obtain r where s1: "split1 ''://'' s = [protocol, r]" and c: "contains ''//'' r"
    by (auto simp: split_protocol_pfn_def split: if_splits list.splits)
  from assms hp s1 c obtain rest where s2: "split1 ''//'' r = [server, rest]" and l: "lfn = ''/'' @ rest"
    by (auto simp: split_protocol_pfn_def split: if_splits list.splits)
  from split1_pair[OF _ s1] have "s = protocol @ ''://'' @ r" "\<not> contains ''://'' (protocol @ '':/'')"
    by auto
  moreover from split1_pair[OF _ s2] have "r = server @ ''//'' @ rest" "\<not> contains ''//'' (server @ ''/'')"
    by auto
  ultimately show ?thesis using l hp by auto
qed


subsection \<open>Round trip of a resolved address\<close>

text \<open>
  Claim C4, as amended.  For every logical path \<open>p\<close> that starts with \<open>/\<close> and contains no
  \<open>://\<close>, and every well-formed server \<open>mgm\<close> (shape \<open>protocol://host\<close>, host non-empty,
  without \<open>//\<close> and without a trailing \<open>/\<close>), parsing the joined string gives the resolved
  address back: \<open>split_mgm(format(p, mgm)) = split_mgm(p, mgm) = (mgm, p)\<close>, whatever the
  default server is.
\<close>

theorem parse_join_resolve_roundtrip:
  assumes "startswith p ''/''" and "\<not> has_protocol p" and "wf_mgm mgm"
  shows "parse_join_resolve dm p mgm = split_mgm dm p (Some mgm)
       \<and> split_mgm dm p (Some mgm) = Inr (mgm, p)"
proof -
  have r: "split_mgm dm p (Some mgm) = Inr (mgm, p)"
    using assms(1,2) by (simp add: split_mgm_def)
  from assms(3) obtain protocol server where
    s: "split1 ''://'' mgm = [protocol, server]" and ne: "server \<noteq> []"
    and nd: "\<not> contains ''//'' server" and ns: "\<not> endswith server ''/''"
    by (auto simp: wf_mgm_def split: list.splits)
  from split1_pair[OF _ s] have m: "mgm = protocol @ ''://'' @ server"
    and np: "\<not> contains ''://'' (protocol @ '':/'')" by auto
  have nsd: "\<not> contains ''//'' (server @ ''/'')" using nd ns by (simp add: no_dslash_end)
  have "\<not> endswith mgm ''/''" using m ne ns endswith_append[of server "protocol @ ''://''"] by simp
  then have f: "format dm p (Some mgm) = Inr (mgm @ ''/'' @ p)"
    using r assms(1) by (simp add: format_def join_mgm_lfn_def)
  from assms(1) obtain p' where p: "p = ''/'' @ p'"
    by (cases p) (auto simp: startswith_def)
  have "split_protocol_pfn (mgm @ ''/'' @ p) = Inr (protocol, server, p)"
    using split_protocol_pfn_assembled[OF np nsd, of p'] m p by simp
  moreover have "has_protocol (mgm @ ''/'' @ p)"
    unfolding has_protocol_def contains_iff m by auto
  ultimately have "split_mgm dm (mgm @ ''/'' @ p) None = Inr (mgm, p)"
    using assms(1) m by (simp add: split_mgm_def split_mgm_pfn_def)
  with f r show ?thesis by (simp add: parse_join_resolve_def)
qed

text \<open>The round trip at \<open>/store/user/x.root\<close> on \<open>root://cmseos.fnal.gov\<close>.\<close>

theorem parse_join_resolve_roundtrip_witness:
  "parse_join_resolve None ''/store/user/x.root'' ''root://cmseos.fnal.gov''
     = Inr (''root://cmseos.fnal.gov'', ''/store/user/x.root'')"
proof -
  have "startswith ''/store/user/x.root'' ''/''" by (simp add: startswith_def)
  moreover have "\<not> has_protocol ''/store/user/x.root''"
    by (simp add: has_protocol_def startswith_def)
  moreover have "wf_mgm ''root://cmseos.fnal.gov''"
    by (simp add: wf_mgm_def startswith_def endswith_def)
  ultimately show ?thesis
    using parse_join_resolve_roundtrip[of "''/store/user/x.root''" "''root://cmseos.fnal.gov''" None]
    by simp
qed

text \<open>
  Claim C4 as stated, for every configured server, fails on a server written with a trailing
  slash, which \<open>_join_mgm_lfn\<close> accepts by its \<open>endswith\<close> guard: the joined string is the
  same URL, and parsing it yields the server without the slash.
\<close>

theorem parse_join_resolve_trailing_slash:
  "parse_join_resolve None ''/store/user'' ''root://cmseos.fnal.gov/''
     = Inr (''root://cmseos.fnal.gov'', ''/store/user'')
   \<and> split_mgm None ''/store/user'' (Some ''root://cmseos.fnal.gov/'')
     = Inr (''root://cmseos.fnal.gov/'', ''/store/user'')
   \<and> parse_join_resolve None ''/store/user'' ''root://cmseos.fnal.gov/''
     \<noteq> split_mgm None ''/store/user'' (Some ''root://cmseos.fnal.gov/'')"
  by (simp add: parse_join_resolve_def format_def split_mgm_def split_mgm_pfn_def
      split_protocol_pfn_def has_protocol_def startswith_def join_mgm_lfn_def endswith_def)

subsection \<open>Idempotence of format\<close>

text \<open>
  Claim C10, as amended.  For every string \<open>s\<close> containing \<open>://\<close> on which \<open>format\<close> succeeds
  and whose embedded host (the text between \<open>://\<close> and the first \<open>//\<close>) is not empty,
  \<open>format\<close> returns \<open>s\<close> itself, so that \<open>format(format(s)) = format(s)\<close>; the result parses
  back to a server without trailing slash and a logical path starting with \<open>/\<close>, and joining
  these reproduces the string.
\<close>

theorem format_idempotent:
  assumes "has_protocol s" and "format dm s None = Inr t"
    and "split_protocol_pfn s = Inr (protocol, server, lfn)" and "server \<noteq> []"
  shows "t = s \<and> format dm t None = Inr t
       \<and> split_mgm dm t None = Inr (protocol @ ''://'' @ server, lfn)
       \<and> \<not> endswith (protocol @ ''://'' @ server) ''/'' \<and> startswith lfn ''/''
       \<and> join_mgm_lfn (protocol @ ''://'' @ server) lfn = Inr t"
proof -
  from split_protocol_pfn_Inr[OF assms(3)] obtain rest where
    s: "s = protocol @ ''://'' @ server @ ''//'' @ rest" and l: "lfn = ''/'' @ rest"
    and nsd: "\<not> contains ''//'' (server @ ''/'')" by blast
  have sl: "startswith lfn ''/''" using l by (simp add: startswith_def)
  have sm: "split_mgm dm s None = Inr (protocol @ ''://'' @ server, lfn)"
    using assms(1,3) sl by (simp add: split_mgm_def split_mgm_pfn_def)
  have "\<not> endswith server ''/''" using nsd by (simp add: no_dslash_end)
  then have ne: "\<not> endswith (protocol @ ''://'' @ server) ''/''"
    using assms(4) endswith_append[of server "protocol @ ''://''"] by simp
  then have j: "join_mgm_lfn (protocol @ ''://'' @ server) lfn = Inr s"
    using sl s l by (simp add: join_mgm_lfn_def)
  with sm have "format dm s None = Inr s" by (simp add: format_def)
  with assms(2) have "t = s" by simp
  with sm ne sl j assms(2) show ?thesis by simp
qed

text \<open>The same at the URL \<open>root://cmseos.fnal.gov//store/user\<close>.\<close>

theorem format_idempotent_witness:
  "format None ''root://cmseos.fnal.gov//store/user'' None = Inr ''root://cmseos.fnal.gov//store/user''
   \<and> split_mgm None ''root://cmseos.fnal.gov//store/user'' None
        = Inr (''root://cmseos.fnal.gov'', ''/store/user'')"
proof -
  let ?s = "''root://cmseos.fnal.gov//store/user''"
  have 1: "has_protocol ?s" by (simp add: has_protocol_def startswith_def)
  have 3: "split_protocol_pfn ?s = Inr (''root'', ''cmseos.fnal.gov'', ''/store/user'')"
    by (simp add: split_protocol_pfn_def has_protocol_def startswith_def)
  have 2: "format None ?s None = Inr ?s"
    by (simp add: format_def split_mgm_def split_mgm_pfn_def 3 1 startswith_def
        join_mgm_lfn_def endswith_def)
  have 4: "''cmseos.fnal.gov'' \<noteq> []" by simp
  from format_idempotent[OF 1 2 3 4] show ?thesis by simp
qed

text \<open>
  Claim C10 as stated fails when the embedded host is empty: \<open>format\<close> succeeds on
  \<open>root:////store\<close>, its result has lost a slash, and \<open>format\<close> of the result raises.
\<close>

theorem format_not_idempotent_empty_server:
  "has_protocol ''root:////store''
   \<and> format None ''root:////store'' None = Inr ''root:///store''
   \<and> format None ''root:///store'' None = Inl (ValueError No_server_lfn)"
  by (simp add: format_def split_mgm_def split_mgm_pfn_def split_protocol_pfn_def
      has_protocol_def startswith_def join_mgm_lfn_def endswith_def)

subsection \<open>An explicitly passed server\<close>

text \<open>
  Claim C8, as amended.  Let \<open>path\<close> be a URL that parses, with embedded server
  \<open>protocol://server\<close>.  If the explicitly passed server differs from it, \<open>split_mgm\<close> raises
  the conflicting-servers \<open>ValueError\<close>.  If it is the same, \<open>split_mgm\<close> succeeds with that
  server and the logical path, and resolving again changes nothing in these two cases: the
  joined form of the result is \<open>path\<close> itself when the embedded host is not empty, and the
  logical path of the result resolves to the same pair when it contains no \<open>://\<close>.
\<close>

theorem split_mgm_explicit_server:
  assumes "split_protocol_pfn path = Inr (protocol, server, lfn)"
  shows "(mgm \<noteq> protocol @ ''://'' @ server \<longrightarrow>
            split_mgm dm path (Some mgm) = Inl (ValueError Conflicting_mgms))
       \<and> (mgm = protocol @ ''://'' @ server \<longrightarrow>
            split_mgm dm path (Some mgm) = Inr (mgm, lfn)
          \<and> (server \<noteq> [] \<longrightarrow> format dm path (Some mgm) = Inr path)
          \<and> (\<not> has_protocol lfn \<longrightarrow> split_mgm dm lfn (Some mgm) = Inr (mgm, lfn)))"
proof -
  from split_protocol_pfn_Inr[OF assms] obtain rest where
    s: "path = protocol @ ''://'' @ server @ ''//'' @ rest" and l: "lfn = ''/'' @ rest"
    and nsd: "\<not> contains ''//'' (server @ ''/'')" and hp: "has_protocol path" by blast
  have sl: "startswith lfn ''/''" using l by (simp add: startswith_def)
  have a: "mgm \<noteq> protocol @ ''://'' @ server \<Longrightarrow>
        split_mgm dm path (Some mgm) = Inl (ValueError Conflicting_mgms)"
    using assms hp by (auto simp: split_mgm_def split_mgm_pfn_def)
  have b: "split_mgm dm path (Some (protocol @ ''://'' @ server)) = Inr (protocol @ ''://'' @ server, lfn)"
    using assms hp sl by (simp add: split_mgm_def split_mgm_pfn_def)
  have c: "format dm path (Some (protocol @ ''://'' @ server)) = Inr path" if "server \<noteq> []"
  proof -
    have "\<not> endswith server ''/''" using nsd by (simp add: no_dslash_end)
    then have "\<not> endswith (protocol @ ''://'' @ server) ''/''"
      using that endswith_append[of server "protocol @ ''://''"] by simp
    then show ?thesis using b sl s l by (simp add: format_def join_mgm_lfn_def)
  qed
  have d: "split_mgm dm lfn (Some (protocol @ ''://'' @ server)) = Inr (protocol @ ''://'' @ server, lfn)"
    if "\<not> has_protocol lfn"
    using that sl by (simp add: split_mgm_def)
  from a b c d show ?thesis by blast
qed

text \<open>A conflict and a match at the URL \<open>root://cmseos.fnal.gov//store/user\<close>.\<close>

theorem split_mgm_explicit_server_witness:
  "split_mgm None ''root://cmseos.fnal.gov//store/user'' (Some ''root://other.host'')
     = Inl (ValueError Conflicting_mgms)
   \<and> split_mgm None ''root://cmseos.fnal.gov//store/user'' (Some ''root://cmseos.fnal.gov'')
     = Inr (''root://cmseos.fnal.gov'', ''/store/user'')
   \<and> format None ''root://cmseos.fnal.gov//store/user'' (Some ''root://cmseos.fnal.gov'')
     = Inr ''root://cmseos.fnal.gov//store/user''
   \<and> split_mgm None ''/store/user'' (Some ''root://cmseos.fnal.gov'')
     = Inr (''root://cmseos.fnal.gov'', ''/store/user'')"
proof -
  let ?s = "''root://cmseos.fnal.gov//store/user''"
  have 1: "split_protocol_pfn ?s = Inr (''root'', ''cmseos.fnal.gov'', ''/store/user'')"
    by (simp add: split_protocol_pfn_def has_protocol_def startswith_def)
  have 2: "\<not> has_protocol ''/store/user''" by (simp add: has_protocol_def startswith_def)
  from split_mgm_explicit_server[OF 1, of "''root://other.host''" None]
    split_mgm_explicit_server[OF 1, of "''root://cmseos.fnal.gov''" None] 2
  show ?thesis by simp
qed

text \<open>
  Claim C8 as stated, idempotent whenever the servers match, fails at the URL
  \<open>root:////a://b//c\<close> with the explicit server \<open>root://\<close>: the servers match and
  \<open>split_mgm\<close> succeeds, but neither the logical path of the result nor its joined form
  resolves to the same pair again; both raise.
\<close>

theorem split_mgm_not_idempotent:
  "split_mgm None ''root:////a://b//c'' (Some ''root://'') = Inr (''root://'', ''/a://b//c'')
   \<and> split_mgm None ''/a://b//c'' (Some ''root://'') = Inl (ValueError Conflicting_mgms)
   \<and> format None ''root:////a://b//c'' (Some ''root://'') = Inr ''root:///a://b//c''
   \<and> split_mgm None ''root:///a://b//c'' (Some ''root://'') = Inl (ValueError Conflicting_mgms)"
  by (simp add: format_def split_mgm_def split_mgm_pfn_def split_protocol_pfn_def
      has_protocol_def startswith_def join_mgm_lfn_def endswith_def)


section \<open>Properties of the command runner\<close>

lemma run_command_loop_ok_nonzero:
  assumes "\<not> dry" and "exec E cmd (length (commands w)) = Exited returncode output'"
    and "returncode \<noteq> 0"
  shows "run_command_loop E cmd dry True n_retries i_attempt w
           = (Inl (NameError ''return_code''), w\<lparr>commands := commands w @ [cmd]\<rparr>)"
  using assms by (subst run_command_loop.simps) simp

text \<open>
  Claim C1.  When the caller passes \<open>non_zero_exitcode_ok=True\<close> and the process ends with a
  return code other than zero, the claim has \<open>run_command\<close> return that code.  The code
  raises \<open>NameError\<close> instead: here on a \<open>xrdfs ... stat\<close> that ends with code 54, started
  once from the initial state.  (The rest of the claim holds, see \<open>run_command_loop_retries\<close>
  below: without the flag the command is started \<open>n_retries + 1\<close> times, with a sleep of
  \<open>N_SECONDS_SLEEP\<close> between two attempts, and \<open>CalledProcessError\<close> is raised at the end.)
\<close>

theorem run_command_nonzero_exitcode_ok:
  "run_command (exits_with 54) [''xrdfs'', ''root://cmseos.fnal.gov'', ''stat'', ''/store/user/nothere'']
       None True 0 initial_world
     = (Inl (NameError ''return_code''),
        initial_world\<lparr>commands := [[''xrdfs'', ''root://cmseos.fnal.gov'', ''stat'', ''/store/user/nothere'']]\<rparr>)"
  by (simp add: run_command_def run_command_loop.simps exits_with_def initial_world_def)

lemma run_command_loop_retries:
  assumes "\<not> dry" and "\<forall>k. \<exists>rc out. exec E cmd k = Exited rc out \<and> rc \<noteq> 0"
    and "int i_attempt \<le> n_retries"
  shows "\<exists>rc. run_command_loop E cmd dry False n_retries i_attempt w
           = (Inl (CalledProcessError cmd rc),
              w\<lparr>commands := commands w @ replicate (nat (n_retries - int i_attempt) + 1) cmd,
                slept := slept w + N_SECONDS_SLEEP * nat (n_retries - int i_attempt)\<rparr>)"
  using assms
proof (induction "nat (n_retries - int i_attempt)" arbitrary: i_attempt w)
  case 0
  then have eq: "int i_attempt = n_retries" by simp
  from "0.prems"(2) obtain rc out where e: "exec E cmd (length (commands w)) = Exited rc out" "rc \<noteq> 0"
    by blast
  show ?case
    apply (subst run_command_loop.simps) using e eq "0.prems"(1) by simp
next
  case (Suc n)
  then have lt: "int i_attempt < n_retries" by linarith
  from Suc.prems(2) obtain rc out where e: "exec E cmd (length (commands w)) = Exited rc out" "rc \<noteq> 0"
    by blast
  have n: "n = nat (n_retries - int (i_attempt + 1))" using Suc.hyps(2) by linarith
  from Suc.hyps(1)[OF n Suc.prems(1) Suc.prems(2), of "w\<lparr>commands := commands w @ [cmd], slept := slept w + N_SECONDS_SLEEP\<rparr>"] lt
  obtain rc' where r: "run_command_loop E cmd dry False n_retries (i_attempt + 1)
       (w\<lparr>commands := commands w @ [cmd], slept := slept w + N_SECONDS_SLEEP\<rparr>) =
      (Inl (CalledProcessError cmd rc'),
       w\<lparr>commands := commands w @ [cmd], slept := slept w + N_SECONDS_SLEEP\<rparr>
       \<lparr>commands := commands (w\<lparr>commands := commands w @ [cmd], slept := slept w + N_SECONDS_SLEEP\<rparr>) @
              replicate (nat (n_retries - int (i_attempt + 1)) + 1) cmd,
          slept := slept (w\<lparr>commands := commands w @ [cmd], slept := slept w + N_SECONDS_SLEEP\<rparr>) +
              N_SECONDS_SLEEP * nat (n_retries - int (i_attempt + 1))\<rparr>)" by auto
  have m: "nat (n_retries - int i_attempt) = Suc (nat (n_retries - int (i_attempt + 1)))"
    using lt by linarith
  show ?case
    apply (subst run_command_loop.simps) using e lt Suc.prems(1) r
    by (simp add: m replicate_append_same add.assoc)
qed


section \<open>Properties of the queries\<close>

text \<open>
  Claim C2.  With \<open>not_exist_ok=True\<close> the claim has \<open>stat\<close> return \<open>None\<close> when the tool ends
  with its code for a missing path, 54 for \<open>xrdfs\<close> and 2 for \<open>gfal-stat\<close>.  The code raises
  the \<open>NameError\<close> of \<open>run_command\<close> in both backends, since they pass the flag on as
  \<open>non_zero_exitcode_ok\<close>.  (In strict mode any return code other than zero is an error, as
  claimed: \<open>stat_xrootd_strict\<close> and \<open>stat_gfal_strict\<close> below.)
\<close>

theorem stat_not_exist_ok_raises:
  "stat (exits_with 54) ''root://cmseos.fnal.gov//store/user/nothere'' True initial_world
     = (Inl (NameError ''return_code''),
        initial_world\<lparr>commands :=
          [[''xrdfs'', ''root://cmseos.fnal.gov'', ''stat'', ''/store/user/nothere'']]\<rparr>)
   \<and> stat (exits_with 2) ''gsiftp://se.example.org//store/user/nothere'' True initial_world
     = (Inl (NameError ''return_code''),
        initial_world\<lparr>commands :=
          [[''gfal-stat'', ''gsiftp://se.example.org//store/user/nothere'']]\<rparr>)"
  by (simp add: stat_def read_cache_def use_xrootd_path_def get_protocol_def use_xrootd_def
      format_def split_mgm_def split_mgm_pfn_def split_protocol_pfn_def has_protocol_def
      startswith_def join_mgm_lfn_def endswith_def stat_xrootd_def stat_gfal_def
      run_command_def run_command_loop.simps exits_with_def initial_world_def)

lemma run_command_once:
  assumes "\<not> DRYMODE w" and "exec E cmd (length (commands w)) = Exited returncode out"
  shows "run_command E cmd None non_zero_exitcode_ok 0 w =
           ((if returncode = 0 then Inr (Output out)
             else if non_zero_exitcode_ok then Inl (NameError ''return_code'')
             else Inl (CalledProcessError cmd returncode)),
            w\<lparr>commands := commands w @ [cmd]\<rparr>)"
  using assms by (simp add: run_command_def run_command_loop.simps)

lemma stat_xrootd_strict:
  assumes "\<not> DRYMODE w" and "split_mgm (DEFAULT_MGM w) path None = Inr (mgm, lfn)"
    and "exec E [''xrdfs'', mgm, ''stat'', lfn] (length (commands w)) = Exited returncode out"
    and "returncode \<noteq> 0"
  shows "stat_xrootd E path False w =
           (Inl (CalledProcessError [''xrdfs'', mgm, ''stat'', lfn] returncode),
            w\<lparr>commands := commands w @ [[''xrdfs'', mgm, ''stat'', lfn]]\<rparr>)"
  using assms by (simp add: stat_xrootd_def run_command_once)

lemma stat_gfal_strict:
  assumes "\<not> DRYMODE w"
    and "exec E [''gfal-stat'', path] (length (commands w)) = Exited returncode out"
    and "returncode \<noteq> 0"
  shows "stat_gfal E path False w =
           (Inl (CalledProcessError [''gfal-stat'', path] returncode),
            w\<lparr>commands := commands w @ [[''gfal-stat'', path]]\<rparr>)"
  using assms by (simp add: stat_gfal_def run_command_once)

text \<open>
  Claim C9.  For a path that \<open>split_mgm\<close> resolves, outside dry mode,
  \<open>_is_file_or_dir_xrootd\<close> reads the exit code of \<open>xrdfs mgm stat -q IsDir lfn\<close> so: 0 gives
  1 (a directory), 54 gives 0 (absent), 55 gives 2 (a file), and any other code raises the
  \<open>RuntimeError\<close>; \<open>_isfile_xrootd\<close> answers \<open>True\<close> exactly on 55.
\<close>

theorem is_file_or_dir_xrootd_exit_codes:
  assumes "split_mgm (DEFAULT_MGM w) path None = Inr (mgm, lfn)" and "\<not> DRYMODE w"
    and "exec E [''xrdfs'', mgm, ''stat'', ''-q'', ''IsDir'', lfn] (length (commands w))
           = Exited status out"
  shows "fst (is_file_or_dir_xrootd E path w) =
           (if status = 0 then Inr (PyInt 1)
            else if status = 54 then Inr (PyInt 0)
            else if status = 55 then Inr (PyInt 2)
            else Inl (RuntimeError Unknown_exit_code))
       \<and> fst (isfile_xrootd E path w) = Inr (PyBool (status = 55))"
  using assms by (simp add: is_file_or_dir_xrootd_def isfile_xrootd_def get_exitcode_def)

text \<open>The codes 55, 54, 0 and 51 on \<open>root://cmseos.fnal.gov//store/user/x.root\<close>.\<close>

theorem is_file_or_dir_xrootd_exit_codes_witness:
  "fst (is_file_or_dir_xrootd (exits_with 55) ''root://cmseos.fnal.gov//store/user/x.root''
          initial_world) = Inr (PyInt 2)
   \<and> fst (isfile_xrootd (exits_with 55) ''root://cmseos.fnal.gov//store/user/x.root''
          initial_world) = Inr (PyBool True)
   \<and> fst (is_file_or_dir_xrootd (exits_with 54) ''root://cmseos.fnal.gov//store/user/x.root''
          initial_world) = Inr (PyInt 0)
   \<and> fst (is_file_or_dir_xrootd (exits_with 0) ''root://cmseos.fnal.gov//store/user/x.root''
          initial_world) = Inr (PyInt 1)
   \<and> fst (is_file_or_dir_xrootd (exits_with 51) ''root://cmseos.fnal.gov//store/user/x.root''
          initial_world) = Inl (RuntimeError Unknown_exit_code)"
proof -
  let ?p = "''root://cmseos.fnal.gov//store/user/x.root''"
  have s: "split_mgm (DEFAULT_MGM initial_world) ?p None
             = Inr (''root://cmseos.fnal.gov'', ''/store/user/x.root'')"
    by (simp add: split_mgm_def split_mgm_pfn_def split_protocol_pfn_def has_protocol_def
        startswith_def)
  have d: "\<not> DRYMODE initial_world" by (simp add: initial_world_def)
  have e: "exec (exits_with n) c k = Exited n []" for n c k by (simp add: exits_with_def)
  from is_file_or_dir_xrootd_exit_codes[OF s d e, of 55] is_file_or_dir_xrootd_exit_codes[OF s d e, of 54]
    is_file_or_dir_xrootd_exit_codes[OF s d e, of 0] is_file_or_dir_xrootd_exit_codes[OF s d e, of 51]
  show ?thesis by simp
qed



lemmas path_defs = format_def split_mgm_def split_mgm_pfn_def split_protocol_pfn_def
  has_protocol_def startswith_def join_mgm_lfn_def endswith_def get_protocol_def
  use_xrootd_path_def use_xrootd_def get_default_mgm_def

section \<open>The cache and listdir\<close>

text \<open>
  Claim C3.  With caching enabled, the claim has every repetition of a read query answered
  from the cache, without a new request to the backend.  For \<open>listdir\<close> on an empty
  directory the code asks the backend again: the cached value is the empty list, and
  \<open>listdir\<close> tests it with \<open>not val\<close> where \<open>stat\<close>, \<open>exists\<close>, \<open>isdir\<close>, \<open>isfile\<close> and
  \<open>is_file_or_dir\<close> test \<open>val is None\<close>.  Below, two calls in a row on the empty directory
  \<open>/store/user/empty\<close>, from the initial state with the cache switched on: the first one
  issues the directory test and the listing, the second one returns the same empty list and
  issues the listing a second time.
\<close>

theorem listdir_empty_directory_twice:
  "fst (listdir (exits_with 0) ''root://cmseos.fnal.gov//store/user/empty'' False False
          (initial_world\<lparr>USE_CACHE := True\<rparr>)) = Inr (PyList [])
   \<and> commands (snd (listdir (exits_with 0) ''root://cmseos.fnal.gov//store/user/empty'' False False
          (initial_world\<lparr>USE_CACHE := True\<rparr>)))
       = [[''xrdfs'', ''root://cmseos.fnal.gov'', ''stat'', ''-q'', ''IsDir'', ''/store/user/empty''],
          [''xrdfs'', ''root://cmseos.fnal.gov'', ''ls'', ''/store/user/empty'']]
   \<and> fst (listdir (exits_with 0) ''root://cmseos.fnal.gov//store/user/empty'' False False
          (snd (listdir (exits_with 0) ''root://cmseos.fnal.gov//store/user/empty'' False False
             (initial_world\<lparr>USE_CACHE := True\<rparr>)))) = Inr (PyList [])
   \<and> commands (snd (listdir (exits_with 0) ''root://cmseos.fnal.gov//store/user/empty'' False False
          (snd (listdir (exits_with 0) ''root://cmseos.fnal.gov//store/user/empty'' False False
             (initial_world\<lparr>USE_CACHE := True\<rparr>)))))
       = [[''xrdfs'', ''root://cmseos.fnal.gov'', ''stat'', ''-q'', ''IsDir'', ''/store/user/empty''],
          [''xrdfs'', ''root://cmseos.fnal.gov'', ''ls'', ''/store/user/empty''],
          [''xrdfs'', ''root://cmseos.fnal.gov'', ''ls'', ''/store/user/empty'']]"
  by (simp add: listdir_def isdir_def isdir_xrootd_def listdir_xrootd_def read_cache_def
      write_cache_def get_exitcode_def run_command_def run_command_loop.simps lines_of_def
      strip_def is_space_def path_defs exits_with_def initial_world_def Let_def)

section \<open>Wildcards\<close>

text \<open>
  Claim C7.  On a storage element that holds the files \<open>/a/b/x.txt\<close>, \<open>/a/b/y.root\<close> and
  \<open>/a/b/c/z.txt\<close> (and the directories above them), with \<open>root://cmseos.fnal.gov\<close> as the
  default server, \<open>ls_wildcard('/a/b/*.txt')\<close> returns the list with the one element
  \<open>/a/b/x.txt\<close>, in the joined form \<open>root://cmseos.fnal.gov//a/b/x.txt\<close> in which the package
  returns every path.  It takes the short way: one directory test and one listing of
  \<open>/a/b\<close>.
\<close>

theorem ls_wildcard_small_tree:
  "ls_wildcard rl (storage_element small_tree) ''/a/b/*.txt'' False world_at_fnal
     = (Inr (PyList [PyStr ''root://cmseos.fnal.gov//a/b/x.txt'']),
        world_at_fnal\<lparr>commands :=
          [[''xrdfs'', ''root://cmseos.fnal.gov'', ''stat'', ''-q'', ''IsDir'', ''/a/b''],
           [''xrdfs'', ''root://cmseos.fnal.gov'', ''ls'', ''/a/b'']]\<rparr>)"
  by (simp add: ls_wildcard_def ls_def is_file_or_dir_def is_file_or_dir_xrootd_def listdir_def
      listdir_xrootd_def read_cache_def write_cache_def get_exitcode_def run_command_def
      run_command_loop.simps lines_of_def strip_def is_space_def path_defs py_eq_int_def
      first_def rsplit1_def match_basename_def basename_def atom_ok_def other_metacharacters_def
      storage_element_def small_tree_def world_at_fnal_def initial_world_def xrdfs_def
      parent_of_def Let_def)

section \<open>The chunked merge\<close>

lemma string_of_nat_digits:
  "string_of_nat 0 = ''0''" "string_of_nat (Suc 0) = ''1''" "string_of_nat 2 = ''2''"
  by (simp_all add: string_of_nat.simps digit_def)

lemma hadd_effect:
  assumes "\<not> DRYMODE w"
  shows "\<exists>r. hadd E root_files dst False w
           = (r, w\<lparr>commands := commands w @ [[''hadd'', ''-f'', dst] @ root_files]\<rparr>)"
  using assms
  by (cases "exec E ([''hadd'', ''-f'', dst] @ root_files) (length (commands w))")
    (auto simp: hadd_def run_command_def run_command_loop.simps)

lemma hadd_success:
  assumes "\<not> DRYMODE w"
    and "exec E ([''hadd'', ''-f'', dst] @ root_files) (length (commands w)) = Exited 0 out"
  shows "hadd E root_files dst False w
           = (None, w\<lparr>commands := commands w @ [[''hadd'', ''-f'', dst] @ root_files]\<rparr>)"
  using assms by (simp add: hadd_def run_command_def run_command_loop.simps)

lemma pool_map_effect:
  assumes "\<not> DRYMODE w" and "\<forall>job \<in> set jobs. \<not> snd (snd job)"
  shows "\<exists>r. pool_map (hadd_packed E) jobs w
           = (r, w\<lparr>commands := commands w
                  @ map (\<lambda>job. [''hadd'', ''-f'', fst (snd job)] @ fst job) jobs\<rparr>)"
  using assms
proof (induction jobs arbitrary: w)
  case Nil
  then show ?case by simp
next
  case (Cons job jobs)
  obtain fs dst d where job: "job = (fs, dst, d)" by (cases job) auto
  with Cons.prems(2) have d: "d = False" by simp
  let ?w1 = "w\<lparr>commands := commands w @ [[''hadd'', ''-f'', dst] @ fs]\<rparr>"
  from hadd_effect[OF Cons.prems(1), of E fs dst] obtain r1 where
    h: "hadd E fs dst False w = (r1, ?w1)" by blast
  have "\<not> DRYMODE ?w1" using Cons.prems(1) by simp
  from Cons.IH[OF this] Cons.prems(2) obtain r2 where
    p: "pool_map (hadd_packed E) jobs ?w1
          = (r2, ?w1\<lparr>commands := commands ?w1
                  @ map (\<lambda>job. [''hadd'', ''-f'', fst (snd job)] @ fst job) jobs\<rparr>)"
    by auto
  have "hadd_packed E job w = hadd E fs dst False w" using job d by (simp add: hadd_packed_def)
  then show ?case using h p job by simp
qed

lemma pool_map_success:
  assumes "\<not> DRYMODE w" and "\<forall>job \<in> set jobs. \<not> snd (snd job)"
    and "\<forall>cmd k. take 1 cmd = [''hadd''] \<longrightarrow> (\<exists>out. exec E cmd k = Exited 0 out)"
  shows "pool_map (hadd_packed E) jobs w
           = (None, w\<lparr>commands := commands w
                  @ map (\<lambda>job. [''hadd'', ''-f'', fst (snd job)] @ fst job) jobs\<rparr>)"
  using assms(1,2)
proof (induction jobs arbitrary: w)
  case Nil
  then show ?case by simp
next
  case (Cons job jobs)
  obtain fs dst d where job: "job = (fs, dst, d)" by (cases job) auto
  with Cons.prems(2) have d: "d = False" by simp
  let ?w1 = "w\<lparr>commands := commands w @ [[''hadd'', ''-f'', dst] @ fs]\<rparr>"
  have "take 1 ([''hadd'', ''-f'', dst] @ fs) = [''hadd'']" by simp
  with assms(3) obtain out where
    "exec E ([''hadd'', ''-f'', dst] @ fs) (length (commands w)) = Exited 0 out"
    by blast
  from hadd_success[OF Cons.prems(1) this] have h: "hadd E fs dst False w = (None, ?w1)" .
  have "\<not> DRYMODE ?w1" using Cons.prems(1) by simp
  from Cons.IH[OF this] Cons.prems(2) have
    p: "pool_map (hadd_packed E) jobs ?w1
          = (None, ?w1\<lparr>commands := commands ?w1
                  @ map (\<lambda>job. [''hadd'', ''-f'', fst (snd job)] @ fst job) jobs\<rparr>)"
    by auto
  have "hadd_packed E job w = hadd E fs dst False w" using job d by (simp add: hadd_packed_def)
  then show ?case using h p job by simp
qed

lemma hadd_chunks_rec_direct:
  assumes "length root_files \<noteq> 0" and "int (length root_files) < chunk_size"
  shows "hadd_chunks_rec (Suc rl) E root_files dst n_threads chunk_size tmpdir dry w
           = hadd E root_files dst dry w"
  using assms by simp

lemma hadd_chunks_rec_chunked:
  assumes "length root_files \<noteq> 0" and "\<not> int (length root_files) < chunk_size"
    and "chunk_size \<noteq> 0"
    and "makedirs (osp_join tmpdir ''tmphadd'') (uuid4 E (uuids_drawn w))
           (w\<lparr>uuids_drawn := uuids_drawn w + 1\<rparr>) = (None, w1)"
    and "scratch = osp_join (osp_join tmpdir ''tmphadd'') (uuid4 E (uuids_drawn w))"
    and "jobs = map (\<lambda>i_chunk.
                   (take (nat chunk_size) (drop (i_chunk * nat chunk_size) root_files),
                    osp_join scratch (''chunk'' @ string_of_nat i_chunk @ ''.root''), False))
                 [0..<nat (- ((- int (length root_files)) div chunk_size))]"
  shows "hadd_chunks_rec (Suc rl) E root_files dst n_threads chunk_size tmpdir False w
           = (case (if n_threads < 1 then (Some (ValueError Pool_processes), w1)
                    else pool_map (hadd_packed E) jobs w1) of
                (Some e, w2) \<Rightarrow> (Some e, rmtree scratch w2)
              | (None, w2) \<Rightarrow>
                  (case hadd_chunks_rec rl E (map (\<lambda>(chunk, chunk_dst, d). chunk_dst) jobs)
                          dst n_threads chunk_size scratch False w2 of
                     (r, w3) \<Rightarrow> (r, rmtree scratch w3)))"
  using assms(1-4) unfolding assms(5,6)
  by (simp add: Let_def del: upt_Suc cong: prod.case_cong option.case_cong)

lemma hadd_chunks_450_two_levels:
  assumes "length root_files = 450" and "\<not> DRYMODE w"
    and "scratch = osp_join (osp_join tmpdir ''tmphadd'') (uuid4 E (uuids_drawn w))"
    and "scratch \<notin> set (directories_made w)"
  shows "scratch \<notin> set (directories_made
           (snd (hadd_chunks_rec (Suc (Suc rl)) E root_files dst n_threads 200 tmpdir False w)))
       \<and> (1 \<le> n_threads \<and> (\<forall>cmd k. take 1 cmd = [''hadd''] \<longrightarrow> (\<exists>out. exec E cmd k = Exited 0 out)) \<longrightarrow>
            fst (hadd_chunks_rec (Suc (Suc rl)) E root_files dst n_threads 200 tmpdir False w) = None
          \<and> commands (snd (hadd_chunks_rec (Suc (Suc rl)) E root_files dst n_threads 200 tmpdir False w))
              = commands w @
                [[''hadd'', ''-f'', osp_join scratch ''chunk0.root''] @ take 200 root_files,
                 [''hadd'', ''-f'', osp_join scratch ''chunk1.root''] @ take 200 (drop 200 root_files),
                 [''hadd'', ''-f'', osp_join scratch ''chunk2.root''] @ drop 400 root_files,
                 [''hadd'', ''-f'', dst, osp_join scratch ''chunk0.root'',
                  osp_join scratch ''chunk1.root'', osp_join scratch ''chunk2.root'']]
          \<and> length (take 200 root_files) = 200
          \<and> length (take 200 (drop 200 root_files)) = 200
          \<and> length (drop 400 root_files) = 50)"
proof -
  let ?parent = "osp_join tmpdir ''tmphadd''"
  let ?jobs = "[(take 200 root_files, osp_join scratch ''chunk0.root'', False),
                (take 200 (drop 200 root_files), osp_join scratch ''chunk1.root'', False),
                (drop 400 root_files, osp_join scratch ''chunk2.root'', False)]"
  let ?chunks = "[osp_join scratch ''chunk0.root'', osp_join scratch ''chunk1.root'',
                  osp_join scratch ''chunk2.root'']"
  let ?w1 = "w\<lparr>uuids_drawn := uuids_drawn w + 1,
               directories_made := directories_made w
                 @ (if ?parent \<in> set (directories_made w) then [] else [?parent]) @ [scratch]\<rparr>"
  let ?w2 = "?w1\<lparr>commands := commands ?w1
                  @ map (\<lambda>job. [''hadd'', ''-f'', fst (snd job)] @ fst job) ?jobs\<rparr>"
  let ?w3 = "?w2\<lparr>commands := commands ?w2 @ [[''hadd'', ''-f'', dst] @ ?chunks]\<rparr>"
  let ?run = "hadd_chunks_rec (Suc (Suc rl)) E root_files dst n_threads 200 tmpdir False w"
  have mk: "makedirs ?parent (uuid4 E (uuids_drawn w)) (w\<lparr>uuids_drawn := uuids_drawn w + 1\<rparr>)
              = (None, ?w1)"
    using assms(3,4) by (simp add: makedirs_def)
  have upt: "[0..<3] = [0, Suc 0, 2]" by (simp add: upt_rec)
  have jobs: "?jobs = map (\<lambda>i_chunk.
                   (take (nat 200) (drop (i_chunk * nat 200) root_files),
                    osp_join scratch (''chunk'' @ string_of_nat i_chunk @ ''.root''), False))
                 [0..<nat (- ((- int (length root_files)) div 200))]"
    using assms(1) by (simp add: upt string_of_nat_digits)
  have step: "?run = (case (if n_threads < 1 then (Some (ValueError Pool_processes), ?w1)
                            else pool_map (hadd_packed E) ?jobs ?w1) of
                (Some e, w2) \<Rightarrow> (Some e, rmtree scratch w2)
              | (None, w2) \<Rightarrow>
                  (case hadd_chunks_rec (Suc rl) E (map (\<lambda>(chunk, chunk_dst, d). chunk_dst) ?jobs)
                          dst n_threads 200 scratch False w2 of
                     (r, w3) \<Rightarrow> (r, rmtree scratch w3)))"
    by (rule hadd_chunks_rec_chunked[OF _ _ _ mk assms(3) jobs]) (simp_all add: assms(1))
  have inner: "hadd_chunks_rec (Suc rl) E (map (\<lambda>(chunk, chunk_dst, d). chunk_dst) ?jobs)
                 dst n_threads 200 scratch False w' = hadd E ?chunks dst False w'" for w'
    by (subst hadd_chunks_rec_direct) simp_all
  have d1: "\<not> DRYMODE ?w1" using assms(2) by simp
  have d2: "\<not> DRYMODE ?w2" using assms(2) by simp
  have nd: "\<forall>job \<in> set ?jobs. \<not> snd (snd job)" by simp
  have a: "scratch \<notin> set (directories_made (snd ?run))"
  proof -
    from pool_map_effect[OF d1 nd] obtain r where
      p: "pool_map (hadd_packed E) ?jobs ?w1 = (r, ?w2)" by blast
    from hadd_effect[OF d2] obtain r' where h: "hadd E ?chunks dst False ?w2 = (r', ?w3)" by blast
    show ?thesis
    proof (cases "n_threads < 1")
      case True
      then have "?run = (Some (ValueError Pool_processes), rmtree scratch ?w1)"
        by (simp only: step if_True prod.case option.case)
      then show ?thesis by (simp add: rmtree_def)
    next
      case False
      show ?thesis
      proof (cases r)
        case None
        have "?run = (r', rmtree scratch ?w3)"
          by (simp only: step False if_False p None inner h prod.case option.case)
        then show ?thesis by (simp add: rmtree_def)
      next
        case (Some e)
        have "?run = (Some e, rmtree scratch ?w2)"
          by (simp only: step False if_False p Some prod.case option.case)
        then show ?thesis by (simp add: rmtree_def)
      qed
    qed
  qed
  have b: "fst ?run = None
          \<and> commands (snd ?run)
              = commands w @
                [[''hadd'', ''-f'', osp_join scratch ''chunk0.root''] @ take 200 root_files,
                 [''hadd'', ''-f'', osp_join scratch ''chunk1.root''] @ take 200 (drop 200 root_files),
                 [''hadd'', ''-f'', osp_join scratch ''chunk2.root''] @ drop 400 root_files,
                 [''hadd'', ''-f'', dst, osp_join scratch ''chunk0.root'',
                  osp_join scratch ''chunk1.root'', osp_join scratch ''chunk2.root'']]"
    if ok': "1 \<le> n_threads \<and> (\<forall>cmd k. take 1 cmd = [''hadd''] \<longrightarrow> (\<exists>out. exec E cmd k = Exited 0 out))"
  proof -
    from ok' have ok: "\<forall>cmd k. take 1 cmd = [''hadd''] \<longrightarrow> (\<exists>out. exec E cmd k = Exited 0 out)"
      and nt: "\<not> n_threads < 1" by auto
    from pool_map_success[OF d1 nd ok] have p: "pool_map (hadd_packed E) ?jobs ?w1 = (None, ?w2)" .
    have "take 1 ([''hadd'', ''-f'', dst] @ ?chunks) = [''hadd'']" by simp
    with ok obtain out where
      "exec E ([''hadd'', ''-f'', dst] @ ?chunks) (length (commands ?w2)) = Exited 0 out"
      by blast
    from hadd_success[OF d2 this] have h: "hadd E ?chunks dst False ?w2 = (None, ?w3)" .
    have "?run = (None, rmtree scratch ?w3)"
      by (simp only: step nt if_False p inner h prod.case option.case)
    then show ?thesis by (simp add: rmtree_def)
  qed
  have c: "length (take 200 root_files) = 200 \<and> length (take 200 (drop 200 root_files)) = 200
          \<and> length (drop 400 root_files) = 50"
    using assms(1) by simp
  from a b c show ?thesis by blast
qed


text \<open>
  Claim C6.  Let \<open>_hadd_chunks\<close> be called, not dry, on 450 files with chunk size 200, the
  interpreter allowing two nested calls at least, and let the directory
  \<open>tmpdir/tmphadd/uuid\<close> it draws not exist before.  Then that directory does not exist
  when the call is over, whatever the merges did; and if there is one worker at least and
  every \<open>hadd\<close> process ends with code 0, the call returns normally after exactly these
  commands, in this order: three
  merges into \<open>chunk0.root\<close>, \<open>chunk1.root\<close> and \<open>chunk2.root\<close> of the directory, over the
  first 200 files, the next 200 and the last 50, and one merge of the three chunks into the
  destination.
\<close>

theorem hadd_chunks_450:
  assumes "2 \<le> rl" and "length root_files = 450" and "\<not> DRYMODE w"
    and "scratch = osp_join (osp_join tmpdir ''tmphadd'') (uuid4 E (uuids_drawn w))"
    and "scratch \<notin> set (directories_made w)"
  shows "scratch \<notin> set (directories_made
           (snd (hadd_chunks_rec rl E root_files dst n_threads 200 tmpdir False w)))
       \<and> (1 \<le> n_threads \<and> (\<forall>cmd k. take 1 cmd = [''hadd''] \<longrightarrow> (\<exists>out. exec E cmd k = Exited 0 out)) \<longrightarrow>
            fst (hadd_chunks_rec rl E root_files dst n_threads 200 tmpdir False w) = None
          \<and> commands (snd (hadd_chunks_rec rl E root_files dst n_threads 200 tmpdir False w))
              = commands w @
                [[''hadd'', ''-f'', osp_join scratch ''chunk0.root''] @ take 200 root_files,
                 [''hadd'', ''-f'', osp_join scratch ''chunk1.root''] @ take 200 (drop 200 root_files),
                 [''hadd'', ''-f'', osp_join scratch ''chunk2.root''] @ drop 400 root_files,
                 [''hadd'', ''-f'', dst, osp_join scratch ''chunk0.root'',
                  osp_join scratch ''chunk1.root'', osp_join scratch ''chunk2.root'']]
          \<and> length (take 200 root_files) = 200
          \<and> length (take 200 (drop 200 root_files)) = 200
          \<and> length (drop 400 root_files) = 50)"
proof -
  from assms(1) obtain k where "rl = 2 + k" using le_Suc_ex by blast
  then have rl: "rl = Suc (Suc k)" by simp
  show ?thesis unfolding rl by (rule hadd_chunks_450_two_levels[OF assms(2-5)])
qed

text \<open>The same on 450 files of one name, every process ending with code 0.\<close>

theorem hadd_chunks_450_witness:
  "''/tmp/tmphadd/uuid0'' \<notin> set (directories_made
      (snd (hadd_chunks_rec 1000 (exits_with 0) (replicate 450 ''in.root'') ''out.root'' 6 200
              ''/tmp'' False initial_world)))
   \<and> fst (hadd_chunks_rec 1000 (exits_with 0) (replicate 450 ''in.root'') ''out.root'' 6 200
              ''/tmp'' False initial_world) = None
   \<and> length (commands (snd (hadd_chunks_rec 1000 (exits_with 0) (replicate 450 ''in.root'')
              ''out.root'' 6 200 ''/tmp'' False initial_world))) = 4"
proof -
  have 1: "(2::nat) \<le> 1000" by simp
  have 2: "length (replicate 450 ''in.root'') = 450" by simp
  have 3: "\<not> DRYMODE initial_world" by (simp add: initial_world_def)
  have 4: "''/tmp/tmphadd/uuid0''
      = osp_join (osp_join ''/tmp'' ''tmphadd'') (uuid4 (exits_with 0) (uuids_drawn initial_world))"
    by (simp add: osp_join_def startswith_def endswith_def exits_with_def initial_world_def
        string_of_nat_digits)
  have 5: "''/tmp/tmphadd/uuid0'' \<notin> set (directories_made initial_world)"
    by (simp add: initial_world_def)
  have 6: "\<forall>cmd k. take 1 cmd = [''hadd''] \<longrightarrow> (\<exists>out. exec (exits_with 0) cmd k = Exited 0 out)"
    by (simp add: exits_with_def)
  have 7: "commands initial_world = []" by (simp add: initial_world_def)
  have 8: "(1::int) \<le> 6" by simp
  from hadd_chunks_450[OF 1 2 3 4 5, where dst = "''out.root''" and n_threads = 6] 6 7 8
  show ?thesis by simp
qed

section \<open>The recursion budget of walk\<close>

subsection \<open>What one call costs\<close>

lemma run_command_effect:
  assumes "run_command E cmd None ok 0 w = (r, w')"
  shows "w' = w \<or> w' = w\<lparr>commands := commands w @ [cmd]\<rparr>"
  using assms
  by (cases "exec E cmd (length (commands w))")
    (auto simp: run_command_def run_command_loop.simps split: if_splits)

lemma get_exitcode_effect:
  assumes "get_exitcode E cmd w = (r, w')"
  shows "w' = w \<or> w' = w\<lparr>commands := commands w @ [cmd]\<rparr>"
  using assms
  by (cases "exec E cmd (length (commands w))") (auto simp: get_exitcode_def split: if_splits)






subsection \<open>No walk issues more listing requests than the budget\<close>







subsection \<open>A walk over a tree that the storage element serves\<close>








lemma walked_none: "\<not> USE_CACHE w \<Longrightarrow> \<not> DRYMODE w \<Longrightarrow> k \<le> MAX_RECURSION_DEPTH w
    \<Longrightarrow> walked (None, (k, a, w)) 0 (k, a', w)"
  by (simp add: walked_def)





subsection \<open>The directory test at the entry of walk\<close>

lemma stat_gfal_effect:
  assumes "stat_gfal E p ok w = (r, w')"
  shows "w' = w \<or> w' = w\<lparr>commands := commands w @ [[''gfal-stat'', p]]\<rparr>"
proof -
  obtain r1 w1 where rc: "run_command E [''gfal-stat'', p] None ok 0 w = (r1, w1)"
    by (cases "run_command E [''gfal-stat'', p] None ok 0 w") auto
  from assms rc have "w' = w1"
    by (auto simp: stat_gfal_def split: sum.splits cmd_result.splits if_splits)
  with run_command_effect[OF rc] show ?thesis by simp
qed







text \<open>The storage element \<open>small_tree\<close> serves its tree.\<close>

lemma ls_small_tree:
  assumes "\<not> USE_CACHE w" and "\<not> DRYMODE w"
  shows "ls (storage_element small_tree) ''root://cmseos.fnal.gov//a'' True True False w
           = (Inr (PyList [PyInode (at_fnal ''/a/b'' True)]),
              w\<lparr>commands := commands w @ [[''xrdfs'', ''root://cmseos.fnal.gov'', ''ls'', ''/a'', ''-l'']]\<rparr>)"
    and "ls (storage_element small_tree) ''root://cmseos.fnal.gov//a/b'' True True False w
           = (Inr (PyList [PyInode (at_fnal ''/a/b/c'' True), PyInode (at_fnal ''/a/b/x.txt'' False),
                           PyInode (at_fnal ''/a/b/y.root'' False)]),
              w\<lparr>commands := commands w @ [[''xrdfs'', ''root://cmseos.fnal.gov'', ''ls'', ''/a/b'', ''-l'']]\<rparr>)"
    and "ls (storage_element small_tree) ''root://cmseos.fnal.gov//a/b/c'' True True False w
           = (Inr (PyList [PyInode (at_fnal ''/a/b/c/z.txt'' False)]),
              w\<lparr>commands := commands w @ [[''xrdfs'', ''root://cmseos.fnal.gov'', ''ls'', ''/a/b/c'', ''-l'']]\<rparr>)"
  using assms
  by (simp_all add: ls_def listdir_def listdir_xrootd_def read_cache_def write_cache_def
      run_command_def run_command_loop.simps lines_of_def strip_def is_space_def path_defs
      py_eq_int_def from_statline_xrootd_def split_ws_def statline_def rsplit1_def
      storage_element_def small_tree_def xrdfs_def parent_of_def at_fnal_def Let_def)





subsection \<open>A walk over a tree that is in the cache\<close>

text \<open>
  What the calls of a walk below \<open>/a\<close> do when the cache is on: a listing that is not in the
  cache costs one request and is written to the cache, a listing that is in the cache is
  returned from it without a request, and so is the directory test.
\<close>

lemmas walk_from_numeral =
  walk_from.simps(2)[where rl = "pred_numeral n", folded numeral_eq_Suc] for n









text \<open>
  The other conditions of the amended statement are needed too.  With a budget of 2 on the
  same tree of three directories, the cache being off: a loop that empties the yielded
  directory lists keeps the walk in \<open>/a\<close>, which costs one listing request, and the walk ends
  normally; and in dry mode, where no command is run and every listing is empty, the walk
  issues no request and ends normally.
\<close>

lemma is_file_or_dir_small_tree:
  assumes "\<not> USE_CACHE w" and "\<not> DRYMODE w"
  shows "is_file_or_dir (storage_element small_tree) ''root://cmseos.fnal.gov//a'' w
           = (Inr (PyInt 1),
              w\<lparr>commands := commands w @
                 [[''xrdfs'', ''root://cmseos.fnal.gov'', ''stat'', ''-q'', ''IsDir'', ''/a'']]\<rparr>)"
  using assms
  by (simp add: is_file_or_dir_def is_file_or_dir_xrootd_def read_cache_def write_cache_def
      get_exitcode_def path_defs strip_def is_space_def storage_element_def small_tree_def
      xrdfs_def Let_def)

lemma walk_pruned_ends_normally:
  "ndirs small_tree_nodes = 3"
  "fst (walk 1000 (storage_element small_tree) prune ''/a'' False ()
        (world_at_fnal\<lparr>MAX_RECURSION_DEPTH := 2\<rparr>)) = None"
  "listing_requests (snd (snd (walk 1000 (storage_element small_tree) prune ''/a'' False ()
        (world_at_fnal\<lparr>MAX_RECURSION_DEPTH := 2\<rparr>)))) = 1"
  by (simp_all add: small_tree_nodes_def walk_def walk_from_numeral path_defs py_eq_int_def
      is_file_or_dir_small_tree ls_small_tree prune_def at_fnal_def ino_isfile_def
      world_at_fnal_def initial_world_def listing_requests_def is_listing_def)

lemma walk_dry_mode_ends_normally:
  "walk 1000 (storage_element small_tree) collect ''/a'' False []
        (world_at_fnal\<lparr>DRYMODE := True, MAX_RECURSION_DEPTH := 2\<rparr>)
   = (None, [(''root://cmseos.fnal.gov//a'', [], [])],
      world_at_fnal\<lparr>DRYMODE := True, MAX_RECURSION_DEPTH := 2\<rparr>)"
  by (simp add: walk_def walk_from_numeral ls_def listdir_def listdir_xrootd_def read_cache_def
      write_cache_def run_command_def run_command_loop.simps lines_of_def strip_def is_space_def
      path_defs py_eq_int_def is_file_or_dir_def is_file_or_dir_xrootd_def get_exitcode_def
      rsplit1_def collect_def world_at_fnal_def initial_world_def Let_def)

section \<open>The cache in stat, exists, isdir, isfile and is_file_or_dir\<close>

text \<open>
  The five queries other than \<open>listdir\<close> test the cached value with \<open>val is None\<close>.  With the
  cache switched on, a call of one of them that returns a value other than \<open>None\<close> leaves a
  state in which the same call returns the same value and leaves the state as it is: no
  command is issued the second time, also when the value is \<open>False\<close> or the exit code 0.
\<close>

lemma only_commands_same: "only_commands w w"
  by (auto simp: only_commands_def intro: exI[of _ "[]"])

lemma only_commands_one: "only_commands w (w\<lparr>commands := commands w @ [c]\<rparr>)"
  by (auto simp: only_commands_def)

lemma run_command_only_commands:
  "run_command E cmd None ok 0 w = (r, w') \<Longrightarrow> only_commands w w'"
  using run_command_effect only_commands_same only_commands_one by metis

lemma get_exitcode_only_commands:
  "get_exitcode E cmd w = (r, w') \<Longrightarrow> only_commands w w'"
  using get_exitcode_effect only_commands_same only_commands_one by metis

lemma stat_gfal_only_commands: "stat_gfal E p ok w = (r, w') \<Longrightarrow> only_commands w w'"
  using stat_gfal_effect only_commands_same only_commands_one by metis

lemma stat_xrootd_only_commands:
  assumes "stat_xrootd E p ok w = (r, w')"
  shows "only_commands w w'"
proof (cases "split_mgm (DEFAULT_MGM w) p None")
  case (Inl e)
  with assms show ?thesis by (simp add: stat_xrootd_def only_commands_same)
next
  case (Inr q)
  obtain mgm lfn where q: "q = (mgm, lfn)" by (cases q) auto
  obtain r1 w1 where rc: "run_command E [''xrdfs'', mgm, ''stat'', lfn] None ok 0 w = (r1, w1)"
    by (cases "run_command E [''xrdfs'', mgm, ''stat'', lfn] None ok 0 w") auto
  from assms Inr q rc have "w' = w1"
    by (auto simp: stat_xrootd_def split: sum.splits cmd_result.splits if_splits)
  with run_command_only_commands[OF rc] show ?thesis by simp
qed

lemma exitcode_backend_only_commands:
  assumes "(case split_mgm (DEFAULT_MGM w) p None of
              Inl e \<Rightarrow> (Inl e, w)
            | Inr (mgm, lfn) \<Rightarrow>
                (case get_exitcode E (cmd mgm lfn) w of
                   (Inl e, w') \<Rightarrow> (Inl e, w')
                 | (Inr status, w') \<Rightarrow> f status w')) = (r, w')"
    and "\<And>status w1. snd (f status w1) = w1"
  shows "only_commands w w'"
proof (cases "split_mgm (DEFAULT_MGM w) p None")
  case (Inl e)
  with assms show ?thesis by (simp add: only_commands_same)
next
  case (Inr q)
  obtain mgm lfn where q: "q = (mgm, lfn)" by (cases q) auto
  obtain r1 w1 where g: "get_exitcode E (cmd mgm lfn) w = (r1, w1)"
    by (cases "get_exitcode E (cmd mgm lfn) w") auto
  from assms(1) Inr q g assms(2) have "w' = w1"
    by (cases r1) (auto, metis snd_conv)
  with get_exitcode_only_commands[OF g] show ?thesis by simp
qed

lemma exists_xrootd_only_commands: "exists_xrootd E p w = (r, w') \<Longrightarrow> only_commands w w'"
  unfolding exists_xrootd_def by (erule exitcode_backend_only_commands) simp

lemma isdir_xrootd_only_commands: "isdir_xrootd E p w = (r, w') \<Longrightarrow> only_commands w w'"
  unfolding isdir_xrootd_def by (erule exitcode_backend_only_commands) simp

lemma isfile_xrootd_only_commands: "isfile_xrootd E p w = (r, w') \<Longrightarrow> only_commands w w'"
  unfolding isfile_xrootd_def by (erule exitcode_backend_only_commands) simp

lemma is_file_or_dir_xrootd_only_commands:
  "is_file_or_dir_xrootd E p w = (r, w') \<Longrightarrow> only_commands w w'"
  unfolding is_file_or_dir_xrootd_def by (erule exitcode_backend_only_commands) simp

lemma exists_gfal_only_commands:
  assumes "exists_gfal E p w = (r, w')"
  shows "only_commands w w'"
proof -
  obtain r1 w1 where g: "get_exitcode E [''gfal-stat'', p] w = (r1, w1)"
    by (cases "get_exitcode E [''gfal-stat'', p] w") auto
  from assms g have "w' = w1" by (auto simp: exists_gfal_def split: sum.splits)
  with get_exitcode_only_commands[OF g] show ?thesis by simp
qed

lemma via_stat_gfal_only_commands:
  assumes "(case stat_gfal E p True w of
              (Inl e, w') \<Rightarrow> (Inl e, w')
            | (Inr statinfo, w') \<Rightarrow> f statinfo w') = (r, w')"
    and "\<And>statinfo w1. snd (f statinfo w1) = w1"
  shows "only_commands w w'"
proof -
  obtain r1 w1 where g: "stat_gfal E p True w = (r1, w1)"
    by (cases "stat_gfal E p True w") auto
  from assms g have "w' = w1" by (cases r1) (auto, metis snd_conv)
  with stat_gfal_only_commands[OF g] show ?thesis by simp
qed

lemma isdir_gfal_only_commands: "isdir_gfal E p w = (r, w') \<Longrightarrow> only_commands w w'"
  unfolding isdir_gfal_def
  by (erule via_stat_gfal_only_commands) (simp split: pyval.splits)

lemma isfile_gfal_only_commands: "isfile_gfal E p w = (r, w') \<Longrightarrow> only_commands w w'"
  unfolding isfile_gfal_def
  by (erule via_stat_gfal_only_commands) (simp split: pyval.splits)

lemma is_file_or_dir_gfal_only_commands:
  "is_file_or_dir_gfal E p w = (r, w') \<Longrightarrow> only_commands w w'"
  unfolding is_file_or_dir_gfal_def
  by (erule via_stat_gfal_only_commands) (simp split: pyval.splits)

lemma read_after_write:
  assumes "USE_CACHE w" and "only_commands w w'"
  shows "read_cache n k (write_cache n k v w') = v"
    and "commands (write_cache n k v w') = commands w'"
  using assms by (auto simp: read_cache_def write_cache_def only_commands_def)

text \<open>The pattern that the five queries share.\<close>

lemma cached_query_twice:
  assumes q: "\<And>w. query w =
      (let val = read_cache n k w in
       if val = PyNone then
         (case use_xrootd_path (DEFAULT_MGM w) p of
            Inl e \<Rightarrow> (Inl e, w)
          | Inr xrootd \<Rightarrow>
              (case (if xrootd then bx w else bg w) of
                 (Inl e, w') \<Rightarrow> (Inl e, w')
               | (Inr val', w') \<Rightarrow> (Inr val', write_cache n k val' w')))
       else (Inr val, w))"
    and bx: "\<And>w r w'. bx w = (r, w') \<Longrightarrow> only_commands w w'"
    and bg: "\<And>w r w'. bg w = (r, w') \<Longrightarrow> only_commands w w'"
    and "USE_CACHE w" and "query w = (Inr v, w1)" and "v \<noteq> PyNone"
  shows "query w1 = (Inr v, w1)"
proof (cases "read_cache n k w = PyNone")
  case False
  with assms(5) have "w1 = w" "v = read_cache n k w" by (auto simp: q Let_def)
  with False show ?thesis by (simp add: q Let_def)
next
  case True
  from assms(5) True obtain x where x: "use_xrootd_path (DEFAULT_MGM w) p = Inr x"
    by (cases "use_xrootd_path (DEFAULT_MGM w) p") (auto simp: q Let_def)
  obtain r' w' where b: "(if x then bx w else bg w) = (r', w')"
    by (cases "if x then bx w else bg w") auto
  then have oc: "only_commands w w'" using bx bg by (auto split: if_splits)
  from assms(5) True x b have "r' = Inr v" "w1 = write_cache n k v w'"
    by (auto simp: q Let_def split: sum.splits)
  then have w1: "w1 = write_cache n k v w'" by simp
  have "read_cache n k w1 = v"
    unfolding w1 by (rule read_after_write(1)[OF assms(4) oc])
  with assms(6) show ?thesis by (simp add: q[of w1] Let_def)
qed

lemma cached_queries_twice:
  assumes "USE_CACHE w" and "v \<noteq> PyNone"
  shows "stat E p ok w = (Inr v, w1) \<Longrightarrow> stat E p ok w1 = (Inr v, w1)"
    and "exists E p w = (Inr v, w1) \<Longrightarrow> exists E p w1 = (Inr v, w1)"
    and "isdir E p w = (Inr v, w1) \<Longrightarrow> isdir E p w1 = (Inr v, w1)"
    and "isfile E p w = (Inr v, w1) \<Longrightarrow> isfile E p w1 = (Inr v, w1)"
    and "is_file_or_dir E p w = (Inr v, w1) \<Longrightarrow> is_file_or_dir E p w1 = (Inr v, w1)"
proof -
  show "stat E p ok w = (Inr v, w1) \<Longrightarrow> stat E p ok w1 = (Inr v, w1)"
    by (rule cached_query_twice[where query = "stat E p ok" and bx = "stat_xrootd E p ok"
          and bg = "stat_gfal E p ok" and w = w, OF _ _ _ assms(1) _ assms(2)])
      (auto simp: stat_def Let_def intro: stat_xrootd_only_commands stat_gfal_only_commands)
  show "exists E p w = (Inr v, w1) \<Longrightarrow> exists E p w1 = (Inr v, w1)"
    by (rule cached_query_twice[where query = "exists E p" and bx = "exists_xrootd E p"
          and bg = "exists_gfal E p" and w = w, OF _ _ _ assms(1) _ assms(2)])
      (auto simp: exists_def Let_def intro: exists_xrootd_only_commands exists_gfal_only_commands)
  show "isdir E p w = (Inr v, w1) \<Longrightarrow> isdir E p w1 = (Inr v, w1)"
    by (rule cached_query_twice[where query = "isdir E p" and bx = "isdir_xrootd E p"
          and bg = "isdir_gfal E p" and w = w, OF _ _ _ assms(1) _ assms(2)])
      (auto simp: isdir_def Let_def intro: isdir_xrootd_only_commands isdir_gfal_only_commands)
  show "isfile E p w = (Inr v, w1) \<Longrightarrow> isfile E p w1 = (Inr v, w1)"
    by (rule cached_query_twice[where query = "isfile E p" and bx = "isfile_xrootd E p"
          and bg = "isfile_gfal E p" and w = w, OF _ _ _ assms(1) _ assms(2)])
      (auto simp: isfile_def Let_def intro: isfile_xrootd_only_commands isfile_gfal_only_commands)
  show "is_file_or_dir E p w = (Inr v, w1) \<Longrightarrow> is_file_or_dir E p w1 = (Inr v, w1)"
    by (rule cached_query_twice[where query = "is_file_or_dir E p"
          and bx = "is_file_or_dir_xrootd E p" and bg = "is_file_or_dir_gfal E p" and w = w,
          OF _ _ _ assms(1) _ assms(2)])
      (auto simp: is_file_or_dir_def Let_def
        intro: is_file_or_dir_xrootd_only_commands is_file_or_dir_gfal_only_commands)
qed

end
